theory Spec2Isabelle
  imports Main "HOL-Library.Word" "HOL-Library.Multiset" "HOL-Library.Sublist"
begin

section \<open>Strings, numerals and the host primitives used by background.js\<close>

text \<open>
  JavaScript strings are modelled as \<open>string\<close> (lists of 8-bit characters), so the model
  covers ASCII input. Numbers are modelled as \<open>int\<close>; \<open>NaN\<close> is \<open>None\<close> of \<open>int option\<close>.
  The integers are exact while they stay below \<open>2 ^ 53\<close>, which holds for every value
  that \<open>isTargetIp\<close> hands to \<open>ipToLong\<close> (groups of at most three digits).
\<close>

definition is_digit :: "char \<Rightarrow> bool" where
  "is_digit c = (48 \<le> (of_char c :: nat) \<and> (of_char c :: nat) \<le> 57)"

definition digit_val :: "char \<Rightarrow> nat" where
  "digit_val c = (of_char c :: nat) - 48"

definition dec_val :: "string \<Rightarrow> nat" where
  "dec_val s = foldl (\<lambda>acc c. acc * 10 + digit_val c) 0 s"

definition is_js_space :: "char \<Rightarrow> bool" where
  "is_js_space c = ((of_char c :: nat) = 32 \<or> (9 \<le> (of_char c :: nat) \<and> (of_char c :: nat) \<le> 13))"

text \<open>
  \<open>parseInt(s, 10)\<close>: leading white space is skipped, one sign is read, and the longest
  prefix of decimal digits is converted; with no digit the result is \<open>NaN\<close>.
\<close>

definition parseInt :: "string \<Rightarrow> int option" where
  "parseInt s =
     (let t = dropWhile is_js_space s;
          neg = (case t of [] \<Rightarrow> False | c # _ \<Rightarrow> c = CHR ''-'');
          u = (case t of [] \<Rightarrow> []
               | c # r \<Rightarrow> if c = CHR ''-'' \<or> c = CHR ''+'' then r else t);
          ds = takeWhile is_digit u
      in if ds = [] then None
         else Some (if neg then - int (dec_val ds) else int (dec_val ds)))"

text \<open>\<open>s.split('.')\<close>: always at least one piece; the empty string gives one empty piece.\<close>

fun split_dot :: "string \<Rightarrow> string list" where
  "split_dot [] = [[]]"
| "split_dot (c # cs) =
     (if c = CHR ''.'' then [] # split_dot cs
      else (case split_dot cs of [] \<Rightarrow> [[c]] | p # ps \<Rightarrow> (c # p) # ps))"

text \<open>
  \<open>x << 8\<close> converts its operand with ToInt32 (\<open>NaN\<close> becomes 0), shifts the 32-bit
  pattern and reads the result as a signed 32-bit integer; \<open>x >>> 0\<close> reads the 32-bit
  pattern as unsigned.
\<close>

definition shl8 :: "int option \<Rightarrow> int" where
  "shl8 x = sint (push_bit 8 (word_of_int (case x of None \<Rightarrow> 0 | Some v \<Rightarrow> v) :: 32 word))"

definition ushr0 :: "int option \<Rightarrow> int" where
  "ushr0 x = uint (word_of_int (case x of None \<Rightarrow> 0 | Some v \<Rightarrow> v) :: 32 word)"

text \<open>Number addition: \<open>NaN\<close> on the right makes the sum \<open>NaN\<close>.\<close>

definition js_add :: "int \<Rightarrow> int option \<Rightarrow> int option" where
  "js_add a b = (case b of None \<Rightarrow> None | Some v \<Rightarrow> Some (a + v))"

section \<open>Address classification\<close>

text \<open>
  \<^verbatim>\<open>ip.split('.').reduce((acc, octet) => (acc << 8) + parseInt(octet, 10), 0) >>> 0\<close>
\<close>

definition ipToLong :: "string \<Rightarrow> int" where
  "ipToLong ip =
     ushr0 (foldl (\<lambda>acc octet. js_add (shl8 acc) (parseInt octet)) (Some 0) (split_dot ip))"

text \<open>
  The test \<^verbatim>\<open>/^(\d{1,3}\.){3}\d{1,3}$/\<close> as a backtracking matcher: each piece of the
  pattern maps an input to the list of inputs that may remain after it has matched.
\<close>

definition re_digits_1_3 :: "string \<Rightarrow> string list" where
  "re_digits_1_3 s =
     [drop k s. k \<leftarrow> [3, 2, 1], k \<le> length s, list_all is_digit (take k s)]"

definition re_dot :: "string \<Rightarrow> string list" where
  "re_dot s = (case s of [] \<Rightarrow> [] | c # r \<Rightarrow> if c = CHR ''.'' then [r] else [])"

definition re_group :: "string \<Rightarrow> string list" where
  "re_group s = concat (map re_dot (re_digits_1_3 s))"

definition ipv4_regex_test :: "string \<Rightarrow> bool" where
  "ipv4_regex_test s =
     ([] \<in> set (concat (map re_digits_1_3
        (concat (map re_group (concat (map re_group (re_group s))))))))"

definition isTargetIp :: "string \<Rightarrow> bool" where
  "isTargetIp hostname =
     (if \<not> ipv4_regex_test hostname then False
      else
        let longIp = ipToLong hostname;
            r1Start = ipToLong ''100.60.0.0'';
            r1End = ipToLong ''100.80.0.0'';
            r2Start = ipToLong ''5.197.0.0'';
            r2End = ipToLong ''5.197.255.255''
        in (longIp \<ge> r1Start \<and> longIp \<le> r1End) \<or> (longIp \<ge> r2Start \<and> longIp \<le> r2End))"

text \<open>
  The wording of the address rule, for comparison with the code: a group of one to three
  decimal digits, four groups joined by dots, and the value
  \<open>((o1 * 256 + o2) * 256 + o3) * 256 + o4\<close> of four octets.
\<close>

definition digit_group :: "string \<Rightarrow> bool" where
  "digit_group a = (1 \<le> length a \<and> length a \<le> 3 \<and> list_all is_digit a)"

definition dotted :: "string \<Rightarrow> string \<Rightarrow> string \<Rightarrow> string \<Rightarrow> string" where
  "dotted a b c d = a @ ''.'' @ b @ ''.'' @ c @ ''.'' @ d"

definition ipv4_value :: "nat \<Rightarrow> nat \<Rightarrow> nat \<Rightarrow> nat \<Rightarrow> int" where
  "ipv4_value o1 o2 o3 o4 = ((int o1 * 256 + int o2) * 256 + int o3) * 256 + int o4"

section \<open>Probing one endpoint\<close>

definition SCAN_TIMEOUT :: nat where
  "SCAN_TIMEOUT = 1200"

text \<open>
  What the network does with one request if nobody cancels it: it answers after \<open>t\<close>
  milliseconds with an HTTP status code, it fails after \<open>t\<close> milliseconds with an error
  of the given name, or it never settles.
\<close>

datatype attempt = Responds nat nat | Fails nat string | Hangs

datatype fetch_result = Fulfilled nat | Rejected string

text \<open>
  \<open>fetch\<close> with the signal of a controller that \<open>setTimeout\<close> aborts after
  \<open>SCAN_TIMEOUT\<close> milliseconds: a request that has not settled by then is rejected with
  an \<open>AbortError\<close>. A request settling in the very millisecond of the deadline is taken
  to be still pending.
\<close>

definition fetch :: "attempt \<Rightarrow> fetch_result" where
  "fetch a =
     (case a of
        Responds t code \<Rightarrow> if t < SCAN_TIMEOUT then Fulfilled code else Rejected ''AbortError''
      | Fails t name \<Rightarrow> if t < SCAN_TIMEOUT then Rejected name else Rejected ''AbortError''
      | Hangs \<Rightarrow> Rejected ''AbortError'')"

definition pending_at_deadline :: "attempt \<Rightarrow> bool" where
  "pending_at_deadline a =
     (case a of Responds t code \<Rightarrow> SCAN_TIMEOUT \<le> t | Fails t name \<Rightarrow> SCAN_TIMEOUT \<le> t
      | Hangs \<Rightarrow> True)"

text \<open>The time, counted from the request, at which the promise of \<open>checkPort\<close> settles.\<close>

definition settle_time :: "attempt \<Rightarrow> nat" where
  "settle_time a =
     (case a of Responds t code \<Rightarrow> min t SCAN_TIMEOUT | Fails t name \<Rightarrow> min t SCAN_TIMEOUT
      | Hangs \<Rightarrow> SCAN_TIMEOUT)"

text \<open>Numbers in template literals: the decimal numeral.\<close>

fun string_of_nat :: "nat \<Rightarrow> string" where
  "string_of_nat n =
     (if n < 10 then [char_of (48 + n)]
      else string_of_nat (n div 10) @ [char_of (48 + n mod 10)])"

declare string_of_nat.simps [simp del]

definition string_of_int :: "int \<Rightarrow> string" where
  "string_of_int i =
     (if i < 0 then CHR ''-'' # string_of_nat (nat (- i)) else string_of_nat (nat i))"

datatype status = OPEN | CLOSED | PROBABLY_OPEN_SSL

record outcome =
  url :: string
  protocol :: string
  port :: nat
  status :: status

text \<open>The network is a parameter: it maps the URL requested to what happens to the request.\<close>

definition checkPort :: "(string \<Rightarrow> attempt) \<Rightarrow> string \<Rightarrow> nat \<Rightarrow> string \<Rightarrow> outcome" where
  "checkPort net hostname p proto =
     (let targetUrl = proto @ ''//'' @ hostname @ '':'' @ string_of_nat p
      in case fetch (net targetUrl) of
           Fulfilled code \<Rightarrow> \<lparr>url = targetUrl, protocol = proto, port = p, status = OPEN\<rparr>
         | Rejected name \<Rightarrow>
             if name = ''AbortError''
             then \<lparr>url = targetUrl, protocol = proto, port = p, status = CLOSED\<rparr>
             else if proto = ''https:''
             then \<lparr>url = targetUrl, protocol = proto, port = p, status = PROBABLY_OPEN_SSL\<rparr>
             else \<lparr>url = targetUrl, protocol = proto, port = p, status = CLOSED\<rparr>)"

section \<open>Scanning and ranking\<close>

definition checks :: "(nat \<times> string) list" where
  "checks = [(443, ''https:''), (8080, ''https:''), (8888, ''https:''),
             (8080, ''http:''), (8888, ''http:'')]"

text \<open>\<open>Promise.all(checks)\<close>: the outcomes in the order of the list.\<close>

definition scan :: "(string \<Rightarrow> attempt) \<Rightarrow> string \<Rightarrow> outcome list" where
  "scan net hostname = map (\<lambda>(p, proto). checkPort net hostname p proto) checks"

text \<open>The time at which \<open>Promise.all\<close> resolves: when the last probe has settled.\<close>

definition scan_time :: "(string \<Rightarrow> attempt) \<Rightarrow> string \<Rightarrow> nat" where
  "scan_time net hostname =
     foldr max (map (\<lambda>r. settle_time (net (url r))) (scan net hostname)) 0"

definition portPriority :: "nat \<Rightarrow> int option" where
  "portPriority p =
     (if p = 443 then Some 3 else if p = 8080 then Some 2 else if p = 8888 then Some 1
      else None)"

definition getWeight :: "outcome \<Rightarrow> int" where
  "getWeight item =
     (let weight = 0;
          weight = (if status item = OPEN then weight + 100
                    else if status item = PROBABLY_OPEN_SSL then weight + 50
                    else weight);
          weight = (if protocol item = ''https:'' then weight + 10 else weight);
          weight = weight + (case portPriority (port item) of None \<Rightarrow> 0 | Some v \<Rightarrow> v)
      in weight)"

definition by_weight :: "outcome \<Rightarrow> outcome \<Rightarrow> int" where
  "by_weight a b = getWeight b - getWeight a"

text \<open>
  \<open>Array.prototype.sort\<close> is a stable sort; with a comparator that orders by a key its
  result is determined. It is modelled by insertion sort: an element goes in front of the
  first later element that the comparator does not put before it.
\<close>

fun insert_by :: "('a \<Rightarrow> 'a \<Rightarrow> int) \<Rightarrow> 'a \<Rightarrow> 'a list \<Rightarrow> 'a list" where
  "insert_by cmp x [] = [x]"
| "insert_by cmp x (y # ys) = (if cmp x y \<le> 0 then x # y # ys else y # insert_by cmp x ys)"

definition js_sort :: "('a \<Rightarrow> 'a \<Rightarrow> int) \<Rightarrow> 'a list \<Rightarrow> 'a list" where
  "js_sort cmp xs = foldr (insert_by cmp) xs []"

definition active :: "outcome \<Rightarrow> bool" where
  "active r = (status r = OPEN \<or> status r = PROBABLY_OPEN_SSL)"

definition rank :: "outcome list \<Rightarrow> outcome list" where
  "rank results = js_sort by_weight (filter active results)"

section \<open>The navigation listener\<close>

record URL =
  url_protocol :: string
  url_hostname :: string
  url_port :: string

record details =
  frameId :: int
  tabId :: int
  details_url :: string

text \<open>
  The shared state: the set \<open>processedTabs\<close> and the pending \<open>setTimeout\<close> callbacks,
  each with the time at which it is due and the key it deletes.
\<close>

record lock_state =
  processedTabs :: "string set"
  timers :: "(nat \<times> string) list"

text \<open>
  What one run of the listener does: the URLs it requested, the \<open>chrome.tabs.update\<close>
  call if any, and the state it leaves.
\<close>

record run =
  probes :: "string list"
  command :: "(int \<times> string) option"
  state :: lock_state

text \<open>The key \<^verbatim>\<open>`${details.tabId}-${hostname}`\<close>.\<close>

definition lock_key :: "int \<Rightarrow> string \<Rightarrow> string" where
  "lock_key tab hostname = string_of_int tab @ ''-'' @ hostname"

definition run_timers :: "nat \<Rightarrow> lock_state \<Rightarrow> lock_state" where
  "run_timers now st =
     \<lparr>processedTabs =
        processedTabs st - snd ` set (filter (\<lambda>(due, k). due \<le> now) (timers st)),
      timers = filter (\<lambda>(due, k). now < due) (timers st)\<rparr>"

definition idle :: "lock_state \<Rightarrow> run" where
  "idle st = \<lparr>probes = [], command = None, state = st\<rparr>"

text \<open>
  The listener of \<open>onBeforeNavigate\<close>, entered at time \<open>now\<close> (milliseconds). The URL
  constructor is a parameter (\<open>None\<close>: it throws, and the listener's \<open>catch\<close> logs the
  error). Callbacks due by \<open>now\<close> have run before the listener starts; those due while
  it waits for the scan run before it continues. Runs of the listener are taken one
  after the other: the next one starts when this one has finished.
\<close>

definition onBeforeNavigate ::
  "(string \<Rightarrow> URL option) \<Rightarrow> (string \<Rightarrow> attempt) \<Rightarrow> nat \<Rightarrow> details \<Rightarrow> lock_state \<Rightarrow> run" where
  "onBeforeNavigate new_URL net now d st0 =
     (let st = run_timers now st0 in
      if frameId d \<noteq> 0 then idle st
      else case new_URL (details_url d) of
        None \<Rightarrow> idle st
      | Some u \<Rightarrow>
          let hostname = url_hostname u in
          if \<not> isTargetIp hostname then idle st
          else
            let isDefaultScheme =
                  (url_protocol u = ''http:'' \<and> (url_port u = [] \<or> url_port u = ''80''));
                lockKey = lock_key (tabId d) hostname
            in
            if lockKey \<in> processedTabs st
            then idle (st\<lparr>timers := timers st @ [(now + 5000, lockKey)]\<rparr>)
            else if \<not> isDefaultScheme \<and> url_protocol u \<noteq> ''http:'' then idle st
            else
              let results = scan net hostname;
                  st' = run_timers (now + scan_time net hostname) st;
                  activePorts = filter active results
              in
              if activePorts = []
              then \<lparr>probes = map url results, command = None, state = st'\<rparr>
              else
                (case js_sort by_weight activePorts of
                   [] \<Rightarrow> \<lparr>probes = map url results, command = None, state = st'\<rparr>
                 | bestTarget # rest \<Rightarrow>
                     if prefix (url bestTarget) (details_url d)
                     then \<lparr>probes = map url results, command = None, state = st'\<rparr>
                     else \<lparr>probes = map url results,
                           command = Some (tabId d, url bestTarget),
                           state = st'\<lparr>processedTabs := insert lockKey (processedTabs st')\<rparr>\<rparr>))"

text \<open>
  The listener suspends at \<open>await Promise.all(checks)\<close>, between its test of the lock
  and \<open>processedTabs.add\<close>, and another run may enter meanwhile. The two halves of a
  run: \<open>listener_enter\<close> is the code up to the \<open>await\<close>, on the shared state at time
  \<open>now\<close>; it has either returned or awaits the scan of a host with a lock key.
  \<open>listener_resume\<close> is the code after the \<open>await\<close>, on the shared state as it is when
  the scan of a run entered at \<open>now\<close> has settled. \<open>onBeforeNavigate\<close> above is a run
  during whose scan no other run touches the state.
\<close>

datatype entered = Returned run | Awaiting string string lock_state

definition listener_enter ::
  "(string \<Rightarrow> URL option) \<Rightarrow> nat \<Rightarrow> details \<Rightarrow> lock_state \<Rightarrow> entered" where
  "listener_enter new_URL now d st0 =
     (let st = run_timers now st0 in
      if frameId d \<noteq> 0 then Returned (idle st)
      else case new_URL (details_url d) of
        None \<Rightarrow> Returned (idle st)
      | Some u \<Rightarrow>
          let hostname = url_hostname u in
          if \<not> isTargetIp hostname then Returned (idle st)
          else
            let isDefaultScheme =
                  (url_protocol u = ''http:'' \<and> (url_port u = [] \<or> url_port u = ''80''));
                lockKey = lock_key (tabId d) hostname
            in
            if lockKey \<in> processedTabs st
            then Returned (idle (st\<lparr>timers := timers st @ [(now + 5000, lockKey)]\<rparr>))
            else if \<not> isDefaultScheme \<and> url_protocol u \<noteq> ''http:'' then Returned (idle st)
            else Awaiting hostname lockKey st)"

definition listener_resume ::
  "(string \<Rightarrow> attempt) \<Rightarrow> nat \<Rightarrow> details \<Rightarrow> string \<Rightarrow> string \<Rightarrow> lock_state \<Rightarrow> run" where
  "listener_resume net now d hostname lockKey st =
     (let results = scan net hostname;
          st' = run_timers (now + scan_time net hostname) st;
          activePorts = filter active results
      in
      if activePorts = []
      then \<lparr>probes = map url results, command = None, state = st'\<rparr>
      else
        (case js_sort by_weight activePorts of
           [] \<Rightarrow> \<lparr>probes = map url results, command = None, state = st'\<rparr>
         | bestTarget # rest \<Rightarrow>
             if prefix (url bestTarget) (details_url d)
             then \<lparr>probes = map url results, command = None, state = st'\<rparr>
             else \<lparr>probes = map url results,
                   command = Some (tabId d, url bestTarget),
                   state = st'\<lparr>processedTabs := insert lockKey (processedTabs st')\<rparr>\<rparr>))"

section \<open>Probing with rejections of any kind\<close>

text \<open>
  The \<open>catch\<close> of \<open>checkPort\<close> reads \<open>error.name\<close>. The value a request is rejected
  with is an error whose name is the given string, a value whose name is no string (a
  thrown string, a plain object), or \<open>null\<close> or \<open>undefined\<close>, on which reading \<open>name\<close>
  throws a TypeError inside the \<open>catch\<close>, so that the promise of \<open>checkPort\<close> is
  rejected. \<open>attempt\<close> and \<open>checkPort\<close> above are the case where every rejection is an
  error with a name.
\<close>

datatype thrown = Named string | Unnamed | Nullish

datatype attempt_any = Answers nat nat | Raises nat thrown | Silent

datatype fetch_any_result = Resolved nat | Threw thrown

datatype js_error = TypeError

definition fetch_any :: "attempt_any \<Rightarrow> fetch_any_result" where
  "fetch_any a =
     (case a of
        Answers t code \<Rightarrow> if t < SCAN_TIMEOUT then Resolved code else Threw (Named ''AbortError'')
      | Raises t e \<Rightarrow> if t < SCAN_TIMEOUT then Threw e else Threw (Named ''AbortError'')
      | Silent \<Rightarrow> Threw (Named ''AbortError''))"

definition checkPort_any ::
  "(string \<Rightarrow> attempt_any) \<Rightarrow> string \<Rightarrow> nat \<Rightarrow> string \<Rightarrow> js_error + outcome" where
  "checkPort_any net hostname p proto =
     (let targetUrl = proto @ ''//'' @ hostname @ '':'' @ string_of_nat p
      in case fetch_any (net targetUrl) of
           Resolved code \<Rightarrow> Inr \<lparr>url = targetUrl, protocol = proto, port = p, status = OPEN\<rparr>
         | Threw e \<Rightarrow>
             (case e of
                Nullish \<Rightarrow> Inl TypeError
              | Named name \<Rightarrow>
                  if name = ''AbortError''
                  then Inr \<lparr>url = targetUrl, protocol = proto, port = p, status = CLOSED\<rparr>
                  else if proto = ''https:''
                  then Inr \<lparr>url = targetUrl, protocol = proto, port = p,
                             status = PROBABLY_OPEN_SSL\<rparr>
                  else Inr \<lparr>url = targetUrl, protocol = proto, port = p, status = CLOSED\<rparr>
              | Unnamed \<Rightarrow>
                  if proto = ''https:''
                  then Inr \<lparr>url = targetUrl, protocol = proto, port = p,
                             status = PROBABLY_OPEN_SSL\<rparr>
                  else Inr \<lparr>url = targetUrl, protocol = proto, port = p, status = CLOSED\<rparr>))"

text \<open>\<open>Promise.all\<close>: rejected as soon as one of the promises is, else all the values.\<close>

fun promise_all :: "('e + 'a) list \<Rightarrow> 'e + 'a list" where
  "promise_all [] = Inr []"
| "promise_all (Inl e # ps) = Inl e"
| "promise_all (Inr x # ps) = (case promise_all ps of Inl e \<Rightarrow> Inl e | Inr xs \<Rightarrow> Inr (x # xs))"

definition scan_any :: "(string \<Rightarrow> attempt_any) \<Rightarrow> string \<Rightarrow> js_error + outcome list" where
  "scan_any net hostname =
     promise_all (map (\<lambda>(p, proto). checkPort_any net hostname p proto) checks)"

text \<open>A network all of whose rejections are errors with a name.\<close>

definition named_net :: "(string \<Rightarrow> attempt) \<Rightarrow> string \<Rightarrow> attempt_any" where
  "named_net net target =
     (case net target of
        Responds t code \<Rightarrow> Answers t code
      | Fails t name \<Rightarrow> Raises t (Named name)
      | Hangs \<Rightarrow> Silent)"

section \<open>Example inputs\<close>

text \<open>
  A router at 100.60.0.1, reached in tab 1. \<open>ex_new_URL\<close> stands for the URL constructor
  on the four addresses used below.
\<close>

definition ex_new_URL :: "string \<Rightarrow> URL option" where
  "ex_new_URL s =
     (if s = ''http://100.60.0.1/''
      then Some \<lparr>url_protocol = ''http:'', url_hostname = ''100.60.0.1'', url_port = []\<rparr>
      else if s = ''http://100.60.0.1:8080/status''
      then Some \<lparr>url_protocol = ''http:'', url_hostname = ''100.60.0.1'', url_port = ''8080''\<rparr>
      else if s = ''https://100.60.0.1:8888/''
      then Some \<lparr>url_protocol = ''https:'', url_hostname = ''100.60.0.1'', url_port = ''8888''\<rparr>
      else if s = ''https://100.60.0.1/''
      then Some \<lparr>url_protocol = ''https:'', url_hostname = ''100.60.0.1'', url_port = []\<rparr>
      else None)"

definition ex_details :: details where
  "ex_details = \<lparr>frameId = 0, tabId = 1, details_url = ''http://100.60.0.1/''\<rparr>"

definition ex_details_8080 :: details where
  "ex_details_8080 = \<lparr>frameId = 0, tabId = 1, details_url = ''http://100.60.0.1:8080/status''\<rparr>"

definition ex_details_https :: details where
  "ex_details_https = \<lparr>frameId = 0, tabId = 1, details_url = ''https://100.60.0.1:8888/''\<rparr>"

text \<open>Port 443 answers after 10 ms; every other request is refused after 5 ms.\<close>

definition ex_net :: "string \<Rightarrow> attempt" where
  "ex_net target =
     (if target = ''https://100.60.0.1:443'' then Responds 10 200 else Fails 5 ''TypeError'')"

text \<open>Only plain HTTP on port 8080 answers; every other request stays unanswered.\<close>

definition ex_net_8080 :: "string \<Rightarrow> attempt" where
  "ex_net_8080 target =
     (if target = ''http://100.60.0.1:8080'' then Responds 10 200 else Hangs)"

definition net_hangs :: "string \<Rightarrow> attempt" where
  "net_hangs target = Hangs"

definition net_404 :: "string \<Rightarrow> attempt" where
  "net_404 target = Responds 30 404"

definition net_refused :: "string \<Rightarrow> attempt" where
  "net_refused target = Fails 5 ''TypeError''"

definition net_range_error :: "string \<Rightarrow> attempt" where
  "net_range_error target = Fails 5 ''RangeError''"

definition init :: lock_state where
  "init = \<lparr>processedTabs = {}, timers = []\<rparr>"

text \<open>
  A history of the tab: a redirect at 0 ms, two suppressed navigations at 2000 ms and
  6000 ms, and a navigation at 8000 ms.
\<close>

definition trace_1 :: lock_state where
  "trace_1 = state (onBeforeNavigate ex_new_URL ex_net 0 ex_details init)"

definition trace_2 :: lock_state where
  "trace_2 = state (onBeforeNavigate ex_new_URL ex_net 2000 ex_details trace_1)"

definition trace_3 :: lock_state where
  "trace_3 = state (onBeforeNavigate ex_new_URL ex_net 6000 ex_details trace_2)"

definition trace_4 :: lock_state where
  "trace_4 = state (onBeforeNavigate ex_new_URL ex_net 8000 ex_details trace_3)"

text \<open>The navigation that the redirect to port 443 causes in the tab.\<close>

definition ex_details_redirected :: details where
  "ex_details_redirected = \<lparr>frameId = 0, tabId = 1, details_url = ''https://100.60.0.1/''\<rparr>"


text \<open>Port 443 rejects with \<open>null\<close>; every other request is answered.\<close>

definition net_null_443 :: "string \<Rightarrow> attempt_any" where
  "net_null_443 target =
     (if target = ''https://100.60.0.1:443'' then Raises 5 Nullish else Answers 10 200)"

text \<open>Every request is rejected with a thrown string.\<close>

definition net_thrown_string :: "string \<Rightarrow> attempt_any" where
  "net_thrown_string target = Raises 5 Unnamed"

section \<open>Address classification: the pattern and the value\<close>

lemma re_digits_1_3_set:
  "set (re_digits_1_3 s) =
     {r. \<exists>k. (k = 1 \<or> k = 2 \<or> k = 3) \<and> k \<le> length s \<and> list_all is_digit (take k s) \<and> r = drop k s}"
  unfolding re_digits_1_3_def by (simp add: set_eq_iff) blast

lemma re_digits_1_3_iff:
  "r \<in> set (re_digits_1_3 s) \<longleftrightarrow> (\<exists>a. digit_group a \<and> s = a @ r)"
proof
  assume "r \<in> set (re_digits_1_3 s)"
  then obtain k where k: "k = 1 \<or> k = 2 \<or> k = 3" "k \<le> length s"
      "list_all is_digit (take k s)" "r = drop k s"
    unfolding re_digits_1_3_set by blast
  then have "digit_group (take k s) \<and> s = take k s @ r"
    by (auto simp: digit_group_def)
  then show "\<exists>a. digit_group a \<and> s = a @ r" by blast
next
  assume "\<exists>a. digit_group a \<and> s = a @ r"
  then obtain a where a: "digit_group a" "s = a @ r" by blast
  then have "length a = 1 \<or> length a = 2 \<or> length a = 3"
    by (auto simp: digit_group_def)
  moreover have "length a \<le> length s" "take (length a) s = a" "drop (length a) s = r"
    using a by simp_all
  moreover have "list_all is_digit a" using a by (simp add: digit_group_def)
  ultimately show "r \<in> set (re_digits_1_3 s)"
    unfolding re_digits_1_3_set by (intro CollectI exI [of _ "length a"]) simp
qed

lemma re_dot_iff: "r \<in> set (re_dot s) \<longleftrightarrow> s = CHR ''.'' # r"
  by (auto simp: re_dot_def split: list.splits if_splits)

lemma re_group_iff:
  "r \<in> set (re_group s) \<longleftrightarrow> (\<exists>a. digit_group a \<and> s = a @ CHR ''.'' # r)"
  by (auto simp: re_group_def re_digits_1_3_iff re_dot_iff)

lemma ipv4_regex_test_iff:
  "ipv4_regex_test s \<longleftrightarrow>
     (\<exists>a b c d. digit_group a \<and> digit_group b \<and> digit_group c \<and> digit_group d \<and>
        s = dotted a b c d)"
proof -
  have "ipv4_regex_test s \<longleftrightarrow>
      (\<exists>r1 r2 r3. r1 \<in> set (re_group s) \<and> r2 \<in> set (re_group r1) \<and> r3 \<in> set (re_group r2) \<and>
         [] \<in> set (re_digits_1_3 r3))"
    unfolding ipv4_regex_test_def by auto
  also have "\<dots> \<longleftrightarrow> (\<exists>a b c d. digit_group a \<and> digit_group b \<and> digit_group c \<and> digit_group d \<and>
        s = dotted a b c d)"
    unfolding re_group_iff re_digits_1_3_iff dotted_def by auto
  finally show ?thesis .
qed

lemma not_dot_digit: "is_digit c \<Longrightarrow> c \<noteq> CHR ''.''"
  by (auto simp: is_digit_def)

lemma split_dot_nodot: "list_all is_digit a \<Longrightarrow> split_dot a = [a]"
  by (induction a) (auto simp: not_dot_digit)

lemma split_dot_append:
  "list_all is_digit a \<Longrightarrow> split_dot (a @ CHR ''.'' # r) = a # split_dot r"
  by (induction a) (auto simp: not_dot_digit)

lemma split_dot_dotted:
  "digit_group a \<Longrightarrow> digit_group b \<Longrightarrow> digit_group c \<Longrightarrow> digit_group d \<Longrightarrow>
   split_dot (dotted a b c d) = [a, b, c, d]"
  by (simp add: dotted_def digit_group_def split_dot_append split_dot_nodot)

lemma parseInt_digits:
  assumes "digit_group a"
  shows "parseInt a = Some (int (dec_val a))"
proof -
  from assms obtain c r where a: "a = c # r" and c: "is_digit c" and all: "list_all is_digit a"
    by (cases a) (auto simp: digit_group_def)
  from c have "\<not> is_js_space c" "c \<noteq> CHR ''-''" "c \<noteq> CHR ''+''"
    by (auto simp: is_digit_def is_js_space_def)
  moreover from all have "takeWhile is_digit a = a"
    by (simp add: list_all_iff)
  ultimately show ?thesis
    using a by (simp add: parseInt_def Let_def)
qed

lemma ipToLong_dotted:
  assumes "digit_group a" "digit_group b" "digit_group c" "digit_group d"
  shows "ipToLong (dotted a b c d) =
           ipv4_value (dec_val a) (dec_val b) (dec_val c) (dec_val d) mod 2 ^ 32"
proof -
  have "ipToLong (dotted a b c d) =
          uint (word_of_int (ipv4_value (dec_val a) (dec_val b) (dec_val c) (dec_val d)) :: 32 word)"
    using assms
    by (simp add: ipToLong_def split_dot_dotted parseInt_digits js_add_def shl8_def ushr0_def
        ipv4_value_def push_bit_eq_mult algebra_simps)
  then show ?thesis
    by (simp add: uint_word_of_int)
qed

lemma range_bounds:
  "ipToLong ''100.60.0.0'' = ipv4_value 100 60 0 0"
  "ipToLong ''100.80.0.0'' = ipv4_value 100 80 0 0"
  "ipToLong ''5.197.0.0'' = ipv4_value 5 197 0 0"
  "ipToLong ''5.197.255.255'' = ipv4_value 5 197 255 255"
  by code_simp+

lemma ipv4_value_small:
  assumes "o1 \<le> 255" "o2 \<le> 255" "o3 \<le> 255" "o4 \<le> 255"
  shows "ipv4_value o1 o2 o3 o4 mod 2 ^ 32 = ipv4_value o1 o2 o3 o4"
proof -
  have "0 \<le> ipv4_value o1 o2 o3 o4" by (simp add: ipv4_value_def)
  moreover have "ipv4_value o1 o2 o3 o4 < 2 ^ 32"
    using assms by (simp add: ipv4_value_def)
  ultimately show ?thesis by simp
qed

lemma isTargetIp_dotted:
  assumes "digit_group a" "digit_group b" "digit_group c" "digit_group d"
    and "dec_val a \<le> 255" "dec_val b \<le> 255" "dec_val c \<le> 255" "dec_val d \<le> 255"
  shows "isTargetIp (dotted a b c d) =
     (let v = ipv4_value (dec_val a) (dec_val b) (dec_val c) (dec_val d)
      in (ipv4_value 100 60 0 0 \<le> v \<and> v \<le> ipv4_value 100 80 0 0) \<or>
         (ipv4_value 5 197 0 0 \<le> v \<and> v \<le> ipv4_value 5 197 255 255))"
proof -
  have "ipv4_regex_test (dotted a b c d)"
    using assms(1-4) ipv4_regex_test_iff by blast
  moreover have "ipToLong (dotted a b c d) =
      ipv4_value (dec_val a) (dec_val b) (dec_val c) (dec_val d)"
    using ipToLong_dotted [OF assms(1-4)] ipv4_value_small [OF assms(5-8)] by (rule trans)
  ultimately show ?thesis
    by (simp add: isTargetIp_def range_bounds Let_def)
qed

lemma isTargetIp_examples:
  "isTargetIp ''100.60.0.0''" "isTargetIp ''100.80.0.0''"
  "\<not> isTargetIp ''100.59.255.255''" "\<not> isTargetIp ''100.80.0.1''"
  "\<not> isTargetIp ''example.com''" "\<not> isTargetIp ''::1''" "\<not> isTargetIp []"
  "isTargetIp ''100.60.0.1''"
  by code_simp+

text \<open>
  C2. For four groups of one to three digits whose values are at most 255,
  \<open>isTargetIp\<close> holds exactly if the value of the address lies in 100.60.0.0 to 100.80.0.0
  or in 5.197.0.0 to 5.197.255.255, bounds included: 100.60.0.0 and 100.80.0.0 are
  targets, 100.59.255.255 and 100.80.0.1 are not. A string that is not four such groups
  joined by dots (a domain name, an IPv6 literal, the empty string) is not a target.
\<close>

theorem isTargetIp_ranges:
  "(digit_group a \<and> digit_group b \<and> digit_group c \<and> digit_group d \<and>
    dec_val a \<le> 255 \<and> dec_val b \<le> 255 \<and> dec_val c \<le> 255 \<and> dec_val d \<le> 255 \<longrightarrow>
      isTargetIp (dotted a b c d) =
        (let v = ipv4_value (dec_val a) (dec_val b) (dec_val c) (dec_val d)
         in (ipv4_value 100 60 0 0 \<le> v \<and> v \<le> ipv4_value 100 80 0 0) \<or>
            (ipv4_value 5 197 0 0 \<le> v \<and> v \<le> ipv4_value 5 197 255 255)))
   \<and> isTargetIp ''100.60.0.0'' \<and> isTargetIp ''100.80.0.0''
   \<and> \<not> isTargetIp ''100.59.255.255'' \<and> \<not> isTargetIp ''100.80.0.1''
   \<and> ((\<nexists>a b c d. digit_group a \<and> digit_group b \<and> digit_group c \<and> digit_group d \<and>
          s = dotted a b c d) \<longrightarrow> \<not> isTargetIp s)
   \<and> \<not> isTargetIp ''example.com'' \<and> \<not> isTargetIp ''::1'' \<and> \<not> isTargetIp []"
proof -
  have "(\<nexists>a b c d. digit_group a \<and> digit_group b \<and> digit_group c \<and> digit_group d \<and>
          s = dotted a b c d) \<longrightarrow> \<not> isTargetIp s"
    unfolding ipv4_regex_test_iff [symmetric] by (simp add: isTargetIp_def)
  then show ?thesis
    using isTargetIp_dotted [of a b c d] isTargetIp_examples by blast
qed

theorem isTargetIp_ranges_witness:
  "digit_group ''100'' \<and> digit_group ''70'' \<and> digit_group ''1'' \<and> digit_group ''2''
   \<and> dec_val ''100'' \<le> 255 \<and> dec_val ''70'' \<le> 255 \<and> dec_val ''1'' \<le> 255 \<and> dec_val ''2'' \<le> 255
   \<and> isTargetIp (dotted ''100'' ''70'' ''1'' ''2'')
   \<and> ipv4_value 100 60 0 0 \<le> ipv4_value (dec_val ''100'') (dec_val ''70'') (dec_val ''1'') (dec_val ''2'')
   \<and> ipv4_value (dec_val ''100'') (dec_val ''70'') (dec_val ''1'') (dec_val ''2'') \<le> ipv4_value 100 80 0 0
   \<and> (\<nexists>a b c d. digit_group a \<and> digit_group b \<and> digit_group c \<and> digit_group d \<and>
          ''router.lan'' = dotted a b c d)
   \<and> \<not> isTargetIp ''router.lan''"
proof -
  have g: "digit_group ''100'' \<and> digit_group ''70'' \<and> digit_group ''1'' \<and> digit_group ''2''"
    by (simp add: digit_group_def is_digit_def)
  have v: "dec_val ''100'' = 100 \<and> dec_val ''70'' = 70 \<and> dec_val ''1'' = 1 \<and> dec_val ''2'' = 2"
    by (simp add: dec_val_def digit_val_def)
  have n: "\<not> ipv4_regex_test ''router.lan''"
    by code_simp
  have r: "ipv4_value 100 60 0 0 \<le> ipv4_value 100 70 1 2 \<and> ipv4_value 100 70 1 2 \<le> ipv4_value 100 80 0 0"
    by (simp add: ipv4_value_def)
  from n have m: "\<nexists>a b c d. digit_group a \<and> digit_group b \<and> digit_group c \<and> digit_group d \<and>
          ''router.lan'' = dotted a b c d"
    unfolding ipv4_regex_test_iff .
  show ?thesis
    using isTargetIp_ranges [of "''100''" "''70''" "''1''" "''2''" "''router.lan''"] g v r m
    by (simp add: Let_def)
qed

text \<open>
  C10. The pattern accepts groups above 255, and such a group carries into the group
  before it: 5.196.256.0 matches the pattern, has a third group of 256, evaluates to the
  same integer as 5.197.0.0, and is classified as a target.
\<close>

theorem octet_overflow_aliases:
  "ipv4_regex_test ''5.196.256.0'' \<and> ''5.196.256.0'' = dotted ''5'' ''196'' ''256'' ''0''
   \<and> dec_val ''256'' > 255
   \<and> ipToLong ''5.196.256.0'' = ipToLong ''5.197.0.0''
   \<and> isTargetIp ''5.196.256.0''"
  by code_simp

section \<open>Probing\<close>

lemma string_of_nat_ports:
  "string_of_nat 443 = ''443''" "string_of_nat 8080 = ''8080''" "string_of_nat 8888 = ''8888''"
  by (simp_all add: string_of_nat.simps) code_simp+

lemma status_checkPort:
  "status (checkPort net hostname p proto) =
     (case fetch (net (proto @ ''//'' @ hostname @ '':'' @ string_of_nat p)) of
        Fulfilled code \<Rightarrow> OPEN
      | Rejected name \<Rightarrow>
          if name = ''AbortError'' then CLOSED
          else if proto = ''https:'' then PROBABLY_OPEN_SSL else CLOSED)"
  by (simp add: checkPort_def Let_def split: fetch_result.splits)

lemma fields_checkPort:
  "url (checkPort net hostname p proto) = proto @ ''//'' @ hostname @ '':'' @ string_of_nat p"
  "protocol (checkPort net hostname p proto) = proto"
  "port (checkPort net hostname p proto) = p"
  by (simp_all add: checkPort_def Let_def split: fetch_result.splits)

lemma fetch_responds: "t < 1200 \<Longrightarrow> fetch (Responds t code) = Fulfilled code"
  by (simp add: fetch_def SCAN_TIMEOUT_def)

lemma fetch_fails: "t < 1200 \<Longrightarrow> fetch (Fails t name) = Rejected name"
  by (simp add: fetch_def SCAN_TIMEOUT_def)

lemma fetch_pending: "pending_at_deadline a \<Longrightarrow> fetch a = Rejected ''AbortError''"
  by (cases a) (simp_all add: pending_at_deadline_def fetch_def)

text \<open>
  C1. A probe whose request is still pending when the 1200 ms deadline elapses is CLOSED;
  one that gets any response before the deadline, whatever its HTTP status, is OPEN; one
  that fails before the deadline with an error other than the cancellation is
  PROBABLY_OPEN_SSL (the spec's SSL_ANOMALY) for \<open>https:\<close> and CLOSED for \<open>http:\<close>;
  and the url of the outcome is always scheme, \<open>://\<close>, host name, \<open>:\<close>, port.
\<close>

theorem checkPort_classification:
  "(pending_at_deadline (net (proto @ ''//'' @ hostname @ '':'' @ string_of_nat p)) \<longrightarrow>
      status (checkPort net hostname p proto) = CLOSED)
   \<and> (net (proto @ ''//'' @ hostname @ '':'' @ string_of_nat p) = Responds t code \<and> t < 1200 \<longrightarrow>
      status (checkPort net hostname p proto) = OPEN)
   \<and> (net (proto @ ''//'' @ hostname @ '':'' @ string_of_nat p) = Fails t name \<and> t < 1200 \<and>
      name \<noteq> ''AbortError'' \<longrightarrow>
        (proto = ''https:'' \<longrightarrow> status (checkPort net hostname p proto) = PROBABLY_OPEN_SSL) \<and>
        (proto = ''http:'' \<longrightarrow> status (checkPort net hostname p proto) = CLOSED))
   \<and> (proto = scheme @ '':'' \<longrightarrow>
        url (checkPort net hostname p proto) = scheme @ ''://'' @ hostname @ '':'' @ string_of_nat p)
   \<and> SCAN_TIMEOUT = 1200"
proof -
  let ?target = "proto @ ''//'' @ hostname @ '':'' @ string_of_nat p"
  have pending: "pending_at_deadline (net ?target) \<longrightarrow>
      status (checkPort net hostname p proto) = CLOSED"
    by (simp add: status_checkPort fetch_pending)
  have responded: "net ?target = Responds t code \<and> t < 1200 \<longrightarrow>
      status (checkPort net hostname p proto) = OPEN"
  proof (intro impI, elim conjE)
    assume "net ?target = Responds t code" "t < 1200"
    then have "fetch (net ?target) = Fulfilled code"
      by (simp add: fetch_responds)
    then show "status (checkPort net hostname p proto) = OPEN"
      by (simp add: status_checkPort)
  qed
  have failed: "net ?target = Fails t name \<and> t < 1200 \<and> name \<noteq> ''AbortError'' \<longrightarrow>
        (proto = ''https:'' \<longrightarrow> status (checkPort net hostname p proto) = PROBABLY_OPEN_SSL) \<and>
        (proto = ''http:'' \<longrightarrow> status (checkPort net hostname p proto) = CLOSED)"
  proof (intro impI, elim conjE)
    assume a: "net ?target = Fails t name" "t < 1200" "name \<noteq> ''AbortError''"
    then have "fetch (net ?target) = Rejected name"
      by (simp add: fetch_fails)
    then have "status (checkPort net hostname p proto) =
        (if proto = ''https:'' then PROBABLY_OPEN_SSL else CLOSED)"
      using a(3) by (simp add: status_checkPort)
    then show "(proto = ''https:'' \<longrightarrow> status (checkPort net hostname p proto) = PROBABLY_OPEN_SSL) \<and>
        (proto = ''http:'' \<longrightarrow> status (checkPort net hostname p proto) = CLOSED)"
      by auto
  qed
  have address: "proto = scheme @ '':'' \<longrightarrow>
        url (checkPort net hostname p proto) = scheme @ ''://'' @ hostname @ '':'' @ string_of_nat p"
    by (simp add: fields_checkPort)
  show ?thesis
    by (intro conjI pending responded failed address SCAN_TIMEOUT_def)
qed

theorem checkPort_classification_witness:
  "pending_at_deadline (net_hangs (''https:'' @ ''//'' @ ''100.60.0.1'' @ '':'' @ string_of_nat 443))
   \<and> status (checkPort net_hangs ''100.60.0.1'' 443 ''https:'') = CLOSED
   \<and> status (checkPort net_404 ''100.60.0.1'' 443 ''https:'') = OPEN
   \<and> status (checkPort net_refused ''100.60.0.1'' 443 ''https:'') = PROBABLY_OPEN_SSL
   \<and> status (checkPort net_refused ''100.60.0.1'' 8080 ''http:'') = CLOSED
   \<and> url (checkPort net_hangs ''100.60.0.1'' 443 ''https:'') = ''https://100.60.0.1:443''"
  using checkPort_classification [of net_hangs "''https:''" "''100.60.0.1''" 443 0 0 "[]" "''https''"]
    checkPort_classification [of net_404 "''https:''" "''100.60.0.1''" 443 30 404 "[]" "''https''"]
    checkPort_classification [of net_refused "''https:''" "''100.60.0.1''" 443 5 0 "''TypeError''" "''https''"]
    checkPort_classification [of net_refused "''http:''" "''100.60.0.1''" 8080 5 0 "''TypeError''" "''http''"]
  by (simp add: net_hangs_def net_404_def net_refused_def pending_at_deadline_def string_of_nat_ports)

lemma checkPort_any_named:
  "checkPort_any (named_net net) hostname p proto = Inr (checkPort net hostname p proto)"
  by (cases "net (proto @ ''//'' @ hostname @ '':'' @ string_of_nat p)")
    (simp_all add: checkPort_any_def checkPort_def named_net_def fetch_any_def fetch_def Let_def)

lemma scan_any_named: "scan_any (named_net net) hostname = Inr (scan net hostname)"
  by (simp add: scan_any_def scan_def checks_def checkPort_any_named)

lemma checkPort_any_Inl:
  "checkPort_any net hostname p proto = Inl e \<longleftrightarrow>
     fetch_any (net (proto @ ''//'' @ hostname @ '':'' @ string_of_nat p)) = Threw Nullish"
  by (cases e)
    (auto simp: checkPort_any_def Let_def split: fetch_any_result.splits thrown.splits)

lemma checkPort_any_Inr:
  assumes "checkPort_any net hostname p proto = Inr r"
  shows "port r = p" and "protocol r = proto"
    and "url r = proto @ ''//'' @ hostname @ '':'' @ string_of_nat p"
  using assms
  by (auto simp: checkPort_any_def Let_def split: fetch_any_result.splits thrown.splits if_splits)

lemma promise_all_map:
  assumes "\<forall>x \<in> set xs. \<exists>r. f x = Inr r \<and> g r = x"
  shows "\<exists>rs. promise_all (map f xs) = Inr rs \<and> map g rs = xs"
  using assms
proof (induction xs)
  case Nil
  then show ?case by simp
next
  case (Cons x xs)
  then obtain r rs where "f x = Inr r" "g r = x" "promise_all (map f xs) = Inr rs" "map g rs = xs"
    by auto
  then show ?case by simp
qed

text \<open>
  C5 (as amended). A rejection of the network primitive, before the deadline, with any
  value other than the cancellation on which \<open>name\<close> can be read (any value but \<open>null\<close>
  and \<open>undefined\<close>) does not leave the probe: the probe resolves to CLOSED for \<open>http:\<close>
  and to PROBABLY_OPEN_SSL for \<open>https:\<close>. When no probe is rejected with \<open>null\<close> or
  \<open>undefined\<close>, the scan resolves to one outcome for each of the five candidates, in
  their order.
\<close>

theorem probe_errors_become_outcomes:
  "(net (proto @ ''//'' @ hostname @ '':'' @ string_of_nat p) = Raises t e \<and> t < 1200 \<and>
      e \<noteq> Nullish \<and> e \<noteq> Named ''AbortError'' \<longrightarrow>
        checkPort_any net hostname p proto =
          Inr \<lparr>url = proto @ ''//'' @ hostname @ '':'' @ string_of_nat p, protocol = proto,
               port = p,
               status = (if proto = ''https:'' then PROBABLY_OPEN_SSL else CLOSED)\<rparr>)
   \<and> ((\<forall>c \<in> set checks.
          fetch_any (net (snd c @ ''//'' @ hostname @ '':'' @ string_of_nat (fst c))) \<noteq>
            Threw Nullish) \<longrightarrow>
        (\<exists>rs. scan_any net hostname = Inr rs \<and> length rs = 5 \<and>
           map (\<lambda>r. (port r, protocol r)) rs = checks))"
proof -
  let ?target = "proto @ ''//'' @ hostname @ '':'' @ string_of_nat p"
  have probe: "net ?target = Raises t e \<and> t < 1200 \<and> e \<noteq> Nullish \<and> e \<noteq> Named ''AbortError'' \<longrightarrow>
        checkPort_any net hostname p proto =
          Inr \<lparr>url = ?target, protocol = proto, port = p,
               status = (if proto = ''https:'' then PROBABLY_OPEN_SSL else CLOSED)\<rparr>"
  proof (intro impI, elim conjE)
    assume a: "net ?target = Raises t e" "t < 1200" "e \<noteq> Nullish" "e \<noteq> Named ''AbortError''"
    then have "fetch_any (net ?target) = Threw e"
      by (simp add: fetch_any_def SCAN_TIMEOUT_def)
    then show "checkPort_any net hostname p proto =
          Inr \<lparr>url = ?target, protocol = proto, port = p,
               status = (if proto = ''https:'' then PROBABLY_OPEN_SSL else CLOSED)\<rparr>"
      using a(3,4) by (cases e) (simp_all add: checkPort_any_def Let_def)
  qed
  have all: "(\<forall>c \<in> set checks.
          fetch_any (net (snd c @ ''//'' @ hostname @ '':'' @ string_of_nat (fst c))) \<noteq>
            Threw Nullish) \<longrightarrow>
        (\<exists>rs. scan_any net hostname = Inr rs \<and> length rs = 5 \<and>
           map (\<lambda>r. (port r, protocol r)) rs = checks)"
  proof
    assume none: "\<forall>c \<in> set checks.
          fetch_any (net (snd c @ ''//'' @ hostname @ '':'' @ string_of_nat (fst c))) \<noteq>
            Threw Nullish"
    have "\<forall>c \<in> set checks. \<exists>r. (\<lambda>(p, proto). checkPort_any net hostname p proto) c = Inr r \<and>
        (\<lambda>r. (port r, protocol r)) r = c"
    proof
      fix c assume c: "c \<in> set checks"
      obtain q pr where cq: "c = (q, pr)" by (cases c)
      from none c cq have "fetch_any (net (pr @ ''//'' @ hostname @ '':'' @ string_of_nat q)) \<noteq>
          Threw Nullish"
        by auto
      then have "\<forall>e. checkPort_any net hostname q pr \<noteq> Inl e"
        by (simp add: checkPort_any_Inl)
      then obtain r where r: "checkPort_any net hostname q pr = Inr r"
        by (cases "checkPort_any net hostname q pr") auto
      with checkPort_any_Inr(1,2) [OF r] cq
      show "\<exists>r. (\<lambda>(p, proto). checkPort_any net hostname p proto) c = Inr r \<and>
        (\<lambda>r. (port r, protocol r)) r = c"
        by simp
    qed
    then have "\<exists>rs. promise_all (map (\<lambda>(p, proto). checkPort_any net hostname p proto) checks) =
          Inr rs \<and> map (\<lambda>r. (port r, protocol r)) rs = checks"
      by (rule promise_all_map)
    then obtain rs where rs: "scan_any net hostname = Inr rs"
        "map (\<lambda>r. (port r, protocol r)) rs = checks"
      unfolding scan_any_def by (elim exE conjE)
    have "length (map (\<lambda>r. (port r, protocol r)) rs) = length checks"
      by (simp only: rs(2))
    then have "length rs = 5"
      by (simp add: checks_def)
    with rs show "\<exists>rs. scan_any net hostname = Inr rs \<and> length rs = 5 \<and>
           map (\<lambda>r. (port r, protocol r)) rs = checks"
      by blast
  qed
  show ?thesis
    by (intro conjI probe all)
qed

lemma fetch_any_thrown_string: "fetch_any (net_thrown_string target) = Threw Unnamed"
  by (simp add: net_thrown_string_def fetch_any_def SCAN_TIMEOUT_def)

theorem probe_errors_become_outcomes_witness:
  "checkPort_any net_thrown_string ''100.60.0.1'' 8080 ''http:'' =
     Inr \<lparr>url = ''http://100.60.0.1:8080'', protocol = ''http:'', port = 8080, status = CLOSED\<rparr>
   \<and> checkPort_any net_thrown_string ''100.60.0.1'' 8080 ''https:'' =
     Inr \<lparr>url = ''https://100.60.0.1:8080'', protocol = ''https:'', port = 8080,
          status = PROBABLY_OPEN_SSL\<rparr>
   \<and> (\<exists>rs. scan_any net_thrown_string ''100.60.0.1'' = Inr rs \<and> length rs = 5 \<and>
          map (\<lambda>r. (port r, protocol r)) rs = checks)"
  using probe_errors_become_outcomes [of net_thrown_string "''http:''" "''100.60.0.1''" 8080 5 Unnamed]
    probe_errors_become_outcomes [of net_thrown_string "''https:''" "''100.60.0.1''" 8080 5 Unnamed]
  by (simp add: fetch_any_thrown_string string_of_nat_ports) (simp add: net_thrown_string_def)

text \<open>
  On an \<open>https:\<close> candidate an error that is neither the cancellation nor a transport
  error, here a RangeError, gives PROBABLY_OPEN_SSL and not CLOSED.
\<close>

theorem unexpected_error_on_https_not_closed:
  "net_range_error ''https://100.60.0.1:443'' = Fails 5 ''RangeError''
   \<and> url (checkPort net_range_error ''100.60.0.1'' 443 ''https:'') = ''https://100.60.0.1:443''
   \<and> status (checkPort net_range_error ''100.60.0.1'' 443 ''https:'') = PROBABLY_OPEN_SSL
   \<and> status (checkPort net_range_error ''100.60.0.1'' 443 ''https:'') \<noteq> CLOSED
   \<and> checkPort_any (named_net net_range_error) ''100.60.0.1'' 443 ''https:'' =
       Inr \<lparr>url = ''https://100.60.0.1:443'', protocol = ''https:'', port = 443,
            status = PROBABLY_OPEN_SSL\<rparr>"
  by (simp add: net_range_error_def status_checkPort fields_checkPort fetch_fails
      string_of_nat_ports checkPort_any_named checkPort_def fetch_def SCAN_TIMEOUT_def)

text \<open>
  A rejection with \<open>null\<close> is outside the statement above: the probe of port 443 is
  rejected with a TypeError and so is the scan, although the four other probes resolve.
\<close>

theorem null_rejection_aborts_scan:
  "checkPort_any net_null_443 ''100.60.0.1'' 443 ''https:'' = Inl TypeError
   \<and> checkPort_any net_null_443 ''100.60.0.1'' 8080 ''https:'' =
       Inr \<lparr>url = ''https://100.60.0.1:8080'', protocol = ''https:'', port = 8080, status = OPEN\<rparr>
   \<and> scan_any net_null_443 ''100.60.0.1'' = Inl TypeError"
  by (simp add: scan_any_def checks_def checkPort_any_def Let_def string_of_nat_ports
      net_null_443_def fetch_any_def SCAN_TIMEOUT_def)

section \<open>Ranking\<close>

lemma insert_by_weight:
  "insert_by by_weight x ys = insort_key (\<lambda>r. - getWeight r) x ys"
  by (induction ys) (simp_all add: by_weight_def)

lemma js_sort_by_weight: "js_sort by_weight xs = sort_key (\<lambda>r. - getWeight r) xs"
proof -
  have "insert_by by_weight = insort_key (\<lambda>r. - getWeight r)"
    by (intro ext) (rule insert_by_weight)
  then show ?thesis
    by (simp add: js_sort_def sort_key_def)
qed

lemma active_iff: "active r \<longleftrightarrow> status r \<noteq> CLOSED"
  by (cases "status r") (simp_all add: active_def)

lemma active_eq: "active = (\<lambda>r. status r \<noteq> CLOSED)"
  by (intro ext) (rule active_iff)

lemma mset_rank: "mset (rank rs) = mset (filter (\<lambda>r. status r \<noteq> CLOSED) rs)"
proof -
  have "filter active rs = filter (\<lambda>r. status r \<noteq> CLOSED) rs"
    by (simp only: active_eq)
  then show ?thesis
    by (simp add: rank_def js_sort_by_weight)
qed

lemma sorted_rank: "sorted_wrt (\<lambda>a b. getWeight b \<le> getWeight a) (rank rs)"
proof -
  have "sorted (map (\<lambda>r. - getWeight r) (rank rs))"
    by (simp add: rank_def js_sort_by_weight)
  then show ?thesis
    by (simp add: sorted_map)
qed

lemma stable_rank:
  "filter (\<lambda>r. getWeight r = k) (rank rs) =
   filter (\<lambda>r. getWeight r = k) (filter (\<lambda>r. status r \<noteq> CLOSED) rs)"
proof -
  have eq: "(\<lambda>r. getWeight r = k) = (\<lambda>r. - getWeight r = - k)"
    by auto
  have "filter (\<lambda>r. - getWeight r = - k) (sort_key (\<lambda>r. - getWeight r) (filter active rs)) =
        filter (\<lambda>r. - getWeight r = - k) (filter active rs)"
    by (rule sort_key_stable)
  moreover have "filter active rs = filter (\<lambda>r. status r \<noteq> CLOSED) rs"
    by (simp only: active_eq)
  ultimately show ?thesis
    unfolding eq rank_def js_sort_by_weight by simp
qed

lemma getWeight_terms:
  "status r \<noteq> CLOSED \<Longrightarrow>
   getWeight r =
     (if status r = OPEN then 100 else 50) + (if protocol r = ''https:'' then 10 else 0) +
     (if port r = 443 then 3 else if port r = 8080 then 2 else if port r = 8888 then 1 else 0)"
  by (cases "status r") (simp_all add: getWeight_def portPriority_def Let_def)

lemma rank_example_3:
  "rank [\<lparr>url = u1, protocol = ''https:'', port = 443, status = OPEN\<rparr>,
         \<lparr>url = u2, protocol = ''https:'', port = 8080, status = PROBABLY_OPEN_SSL\<rparr>,
         \<lparr>url = u3, protocol = ''https:'', port = 8888, status = CLOSED\<rparr>] =
     [\<lparr>url = u1, protocol = ''https:'', port = 443, status = OPEN\<rparr>,
      \<lparr>url = u2, protocol = ''https:'', port = 8080, status = PROBABLY_OPEN_SSL\<rparr>]"
  by (simp add: rank_def js_sort_def active_def by_weight_def getWeight_def portPriority_def)

lemma rank_example_2:
  "rank [\<lparr>url = u1, protocol = ''https:'', port = 8888, status = OPEN\<rparr>,
         \<lparr>url = u2, protocol = ''https:'', port = 8080, status = OPEN\<rparr>] =
     [\<lparr>url = u2, protocol = ''https:'', port = 8080, status = OPEN\<rparr>,
      \<lparr>url = u1, protocol = ''https:'', port = 8888, status = OPEN\<rparr>]"
  by (simp add: rank_def js_sort_def active_def by_weight_def getWeight_def portPriority_def)

lemma getWeight_examples:
  "getWeight \<lparr>url = u1, protocol = ''https:'', port = 443, status = OPEN\<rparr> = 113"
  "getWeight \<lparr>url = u2, protocol = ''https:'', port = 8080, status = PROBABLY_OPEN_SSL\<rparr> = 62"
  "getWeight \<lparr>url = u2, protocol = ''https:'', port = 8080, status = OPEN\<rparr> = 112"
  "getWeight \<lparr>url = u1, protocol = ''https:'', port = 8888, status = OPEN\<rparr> = 111"
  by (simp_all add: getWeight_def portPriority_def)

text \<open>
  C3. Ranking keeps exactly the outcomes that are not CLOSED; each of them weighs 100 if
  OPEN and 50 otherwise, plus 10 for \<open>https:\<close>, plus 3, 2, 1 for the ports 443, 8080, 8888
  and 0 for any other port; the result is in descending order of weight, and outcomes of
  equal weight keep the order they had (the sort is stable). The outcomes OPEN at 443,
  PROBABLY_OPEN_SSL at 8080 and CLOSED at 8888, all \<open>https:\<close>, rank as 443 (113) then
  8080 (62); two OPEN \<open>https:\<close> outcomes at 8080 and 8888 weigh 112 and 111, 8080 first.
\<close>

theorem rank_filters_scores_sorts:
  "mset (rank rs) = mset (filter (\<lambda>r. status r \<noteq> CLOSED) rs)
   \<and> (\<forall>r \<in> set (rank rs).
        getWeight r =
          (if status r = OPEN then 100 else 50) + (if protocol r = ''https:'' then 10 else 0) +
          (if port r = 443 then 3 else if port r = 8080 then 2 else if port r = 8888 then 1 else 0))
   \<and> sorted_wrt (\<lambda>a b. getWeight a \<ge> getWeight b) (rank rs)
   \<and> (\<forall>k. filter (\<lambda>r. getWeight r = k) (rank rs) =
            filter (\<lambda>r. getWeight r = k) (filter (\<lambda>r. status r \<noteq> CLOSED) rs))
   \<and> rank [\<lparr>url = u1, protocol = ''https:'', port = 443, status = OPEN\<rparr>,
            \<lparr>url = u2, protocol = ''https:'', port = 8080, status = PROBABLY_OPEN_SSL\<rparr>,
            \<lparr>url = u3, protocol = ''https:'', port = 8888, status = CLOSED\<rparr>] =
        [\<lparr>url = u1, protocol = ''https:'', port = 443, status = OPEN\<rparr>,
         \<lparr>url = u2, protocol = ''https:'', port = 8080, status = PROBABLY_OPEN_SSL\<rparr>]
   \<and> getWeight \<lparr>url = u1, protocol = ''https:'', port = 443, status = OPEN\<rparr> = 113
   \<and> getWeight \<lparr>url = u2, protocol = ''https:'', port = 8080, status = PROBABLY_OPEN_SSL\<rparr> = 62
   \<and> rank [\<lparr>url = u1, protocol = ''https:'', port = 8888, status = OPEN\<rparr>,
            \<lparr>url = u2, protocol = ''https:'', port = 8080, status = OPEN\<rparr>] =
        [\<lparr>url = u2, protocol = ''https:'', port = 8080, status = OPEN\<rparr>,
         \<lparr>url = u1, protocol = ''https:'', port = 8888, status = OPEN\<rparr>]
   \<and> getWeight \<lparr>url = u2, protocol = ''https:'', port = 8080, status = OPEN\<rparr> = 112
   \<and> getWeight \<lparr>url = u1, protocol = ''https:'', port = 8888, status = OPEN\<rparr> = 111"
proof -
  have terms: "\<forall>r \<in> set (rank rs).
        getWeight r =
          (if status r = OPEN then 100 else 50) + (if protocol r = ''https:'' then 10 else 0) +
          (if port r = 443 then 3 else if port r = 8080 then 2 else if port r = 8888 then 1 else 0)"
  proof
    fix r assume "r \<in> set (rank rs)"
    then have "r \<in># mset (filter (\<lambda>r. status r \<noteq> CLOSED) rs)"
      unfolding mset_rank [symmetric] by simp
    then have "status r \<noteq> CLOSED" by simp
    then show "getWeight r =
          (if status r = OPEN then 100 else 50) + (if protocol r = ''https:'' then 10 else 0) +
          (if port r = 443 then 3 else if port r = 8080 then 2 else if port r = 8888 then 1 else 0)"
      by (rule getWeight_terms)
  qed
  have stable: "\<forall>k. filter (\<lambda>r. getWeight r = k) (rank rs) =
            filter (\<lambda>r. getWeight r = k) (filter (\<lambda>r. status r \<noteq> CLOSED) rs)"
    by (intro allI) (rule stable_rank)
  show ?thesis
    by (intro conjI mset_rank terms sorted_rank stable rank_example_3 rank_example_2
        getWeight_examples)
qed

theorem rank_filters_scores_sorts_witness:
  "rank [\<lparr>url = ''c'', protocol = ''http:'', port = 8888, status = CLOSED\<rparr>,
         \<lparr>url = ''a'', protocol = ''http:'', port = 81, status = PROBABLY_OPEN_SSL\<rparr>,
         \<lparr>url = ''b'', protocol = ''http:'', port = 82, status = PROBABLY_OPEN_SSL\<rparr>,
         \<lparr>url = ''d'', protocol = ''https:'', port = 443, status = OPEN\<rparr>] =
     [\<lparr>url = ''d'', protocol = ''https:'', port = 443, status = OPEN\<rparr>,
      \<lparr>url = ''a'', protocol = ''http:'', port = 81, status = PROBABLY_OPEN_SSL\<rparr>,
      \<lparr>url = ''b'', protocol = ''http:'', port = 82, status = PROBABLY_OPEN_SSL\<rparr>]
   \<and> map getWeight (rank [\<lparr>url = ''c'', protocol = ''http:'', port = 8888, status = CLOSED\<rparr>,
         \<lparr>url = ''a'', protocol = ''http:'', port = 81, status = PROBABLY_OPEN_SSL\<rparr>,
         \<lparr>url = ''b'', protocol = ''http:'', port = 82, status = PROBABLY_OPEN_SSL\<rparr>,
         \<lparr>url = ''d'', protocol = ''https:'', port = 443, status = OPEN\<rparr>]) = [113, 50, 50]"
  using rank_filters_scores_sorts [of
      "[\<lparr>url = ''c'', protocol = ''http:'', port = 8888, status = CLOSED\<rparr>,
         \<lparr>url = ''a'', protocol = ''http:'', port = 81, status = PROBABLY_OPEN_SSL\<rparr>,
         \<lparr>url = ''b'', protocol = ''http:'', port = 82, status = PROBABLY_OPEN_SSL\<rparr>,
         \<lparr>url = ''d'', protocol = ''https:'', port = 443, status = OPEN\<rparr>]"]
  by (simp add: rank_def js_sort_def active_def by_weight_def getWeight_def portPriority_def)

text \<open>
  C8. An OPEN outcome weighs more than a PROBABLY_OPEN_SSL outcome whatever their
  protocols and ports, so in a ranking no OPEN outcome comes after a PROBABLY_OPEN_SSL
  one.
\<close>

theorem open_dominates_ssl_anomaly:
  "(status a = OPEN \<and> status b = PROBABLY_OPEN_SSL \<longrightarrow> getWeight a > getWeight b)
   \<and> (rank rs = xs @ b # ys \<and> status b = PROBABLY_OPEN_SSL \<longrightarrow>
        (\<forall>a \<in> set ys. status a \<noteq> OPEN))"
proof -
  have dominates: "getWeight y < getWeight x"
    if "status x = OPEN" "status y = PROBABLY_OPEN_SSL" for x y
    using that by (simp add: getWeight_def portPriority_def Let_def)
  have order: "rank rs = xs @ b # ys \<and> status b = PROBABLY_OPEN_SSL \<longrightarrow>
        (\<forall>a \<in> set ys. status a \<noteq> OPEN)"
  proof (intro impI ballI, elim conjE)
    fix a assume r: "rank rs = xs @ b # ys" and b: "status b = PROBABLY_OPEN_SSL"
      and a: "a \<in> set ys"
    from sorted_rank [of rs] r a have "getWeight a \<le> getWeight b"
      by (simp add: sorted_wrt_append)
    with dominates [of a b] b show "status a \<noteq> OPEN"
      by auto
  qed
  show ?thesis
    using dominates [of a b] order by blast
qed

theorem open_dominates_ssl_anomaly_witness:
  "getWeight \<lparr>url = ''a'', protocol = ''http:'', port = 81, status = OPEN\<rparr> >
     getWeight \<lparr>url = ''b'', protocol = ''https:'', port = 443, status = PROBABLY_OPEN_SSL\<rparr>
   \<and> rank [\<lparr>url = ''b'', protocol = ''https:'', port = 443, status = PROBABLY_OPEN_SSL\<rparr>,
           \<lparr>url = ''c'', protocol = ''https:'', port = 8080, status = PROBABLY_OPEN_SSL\<rparr>,
           \<lparr>url = ''a'', protocol = ''http:'', port = 81, status = OPEN\<rparr>] =
       [\<lparr>url = ''a'', protocol = ''http:'', port = 81, status = OPEN\<rparr>] @
       \<lparr>url = ''b'', protocol = ''https:'', port = 443, status = PROBABLY_OPEN_SSL\<rparr> #
       [\<lparr>url = ''c'', protocol = ''https:'', port = 8080, status = PROBABLY_OPEN_SSL\<rparr>]
   \<and> status \<lparr>url = ''c'', protocol = ''https:'', port = 8080, status = PROBABLY_OPEN_SSL\<rparr> \<noteq> OPEN"
  using open_dominates_ssl_anomaly [of
      "\<lparr>url = ''a'', protocol = ''http:'', port = 81, status = OPEN\<rparr>"
      "\<lparr>url = ''b'', protocol = ''https:'', port = 443, status = PROBABLY_OPEN_SSL\<rparr>"
      "[\<lparr>url = ''b'', protocol = ''https:'', port = 443, status = PROBABLY_OPEN_SSL\<rparr>,
           \<lparr>url = ''c'', protocol = ''https:'', port = 8080, status = PROBABLY_OPEN_SSL\<rparr>,
           \<lparr>url = ''a'', protocol = ''http:'', port = 81, status = OPEN\<rparr>]"
      "[\<lparr>url = ''a'', protocol = ''http:'', port = 81, status = OPEN\<rparr>]"
      "[\<lparr>url = ''c'', protocol = ''https:'', port = 8080, status = PROBABLY_OPEN_SSL\<rparr>]"]
  by (simp add: rank_def js_sort_def active_def by_weight_def getWeight_def portPriority_def)

section \<open>The listener, branch by branch\<close>

lemma rank_Nil_iff: "rank rs = [] \<longleftrightarrow> filter active rs = []"
proof -
  have "mset (rank rs) = mset (filter active rs)"
    by (simp add: rank_def js_sort_by_weight)
  then show ?thesis
    by (metis mset_zero_iff)
qed

lemma nav_locked:
  assumes "frameId d = 0" "new_URL (details_url d) = Some u" "isTargetIp (url_hostname u)"
    and "lock_key (tabId d) (url_hostname u) \<in> processedTabs (run_timers now st)"
  shows "onBeforeNavigate new_URL net now d st =
     idle ((run_timers now st)\<lparr>timers := timers (run_timers now st) @
        [(now + 5000, lock_key (tabId d) (url_hostname u))]\<rparr>)"
  using assms by (simp add: onBeforeNavigate_def Let_def)

lemma nav_scans:
  assumes "frameId d = 0" "new_URL (details_url d) = Some u" "isTargetIp (url_hostname u)"
    and "lock_key (tabId d) (url_hostname u) \<notin> processedTabs (run_timers now st)"
    and "url_protocol u = ''http:''"
  shows "onBeforeNavigate new_URL net now d st =
     (case rank (scan net (url_hostname u)) of
        [] \<Rightarrow> \<lparr>probes = map url (scan net (url_hostname u)), command = None,
               state = run_timers (now + scan_time net (url_hostname u)) (run_timers now st)\<rparr>
      | best # rest \<Rightarrow>
          if prefix (url best) (details_url d)
          then \<lparr>probes = map url (scan net (url_hostname u)), command = None,
                state = run_timers (now + scan_time net (url_hostname u)) (run_timers now st)\<rparr>
          else \<lparr>probes = map url (scan net (url_hostname u)),
                command = Some (tabId d, url best),
                state = (run_timers (now + scan_time net (url_hostname u)) (run_timers now st))
                  \<lparr>processedTabs := insert (lock_key (tabId d) (url_hostname u))
                     (processedTabs (run_timers (now + scan_time net (url_hostname u))
                        (run_timers now st)))\<rparr>\<rparr>)"
proof (cases "filter active (scan net (url_hostname u)) = []")
  case True
  then have "rank (scan net (url_hostname u)) = []"
    by (simp add: rank_Nil_iff)
  with True assms show ?thesis
    by (simp add: onBeforeNavigate_def Let_def)
next
  case False
  with assms show ?thesis
    by (simp add: onBeforeNavigate_def Let_def rank_def)
qed

lemma nav_not_http:
  assumes "new_URL (details_url d) = Some u" "url_protocol u \<noteq> ''http:''"
  shows "probes (onBeforeNavigate new_URL net now d st) = []"
    and "command (onBeforeNavigate new_URL net now d st) = None"
  using assms by (simp_all add: onBeforeNavigate_def Let_def idle_def)

lemma nav_command:
  assumes "command (onBeforeNavigate new_URL net now d st) = Some c"
    and "new_URL (details_url d) = Some u"
  shows "frameId d = 0 \<and> isTargetIp (url_hostname u) \<and> url_protocol u = ''http:'' \<and>
     lock_key (tabId d) (url_hostname u) \<notin> processedTabs (run_timers now st) \<and>
     (\<exists>best rest. rank (scan net (url_hostname u)) = best # rest \<and>
        \<not> prefix (url best) (details_url d) \<and> c = (tabId d, url best))"
proof -
  have f: "frameId d = 0"
    using assms by (auto simp: onBeforeNavigate_def Let_def idle_def split: if_splits)
  have t: "isTargetIp (url_hostname u)"
    using assms f by (auto simp: onBeforeNavigate_def Let_def idle_def split: if_splits)
  have k: "lock_key (tabId d) (url_hostname u) \<notin> processedTabs (run_timers now st)"
  proof
    assume "lock_key (tabId d) (url_hostname u) \<in> processedTabs (run_timers now st)"
    with f assms(2) t have "command (onBeforeNavigate new_URL net now d st) = None"
      by (simp add: nav_locked [where new_URL = new_URL and u = u] idle_def)
    with assms(1) show False by simp
  qed
  have h: "url_protocol u = ''http:''"
  proof (rule ccontr)
    assume "url_protocol u \<noteq> ''http:''"
    with assms(2) have "command (onBeforeNavigate new_URL net now d st) = None"
      by (simp add: nav_not_http(2) [where new_URL = new_URL and u = u])
    with assms(1) show False by simp
  qed
  note eq = nav_scans [where new_URL = new_URL and u = u and d = d and now = now and st = st
      and net = net, OF f assms(2) t k h]
  have "\<exists>best rest. rank (scan net (url_hostname u)) = best # rest \<and>
        \<not> prefix (url best) (details_url d) \<and> c = (tabId d, url best)"
    using assms(1) unfolding eq
    by (cases "rank (scan net (url_hostname u))") (auto split: if_splits)
  with f t k h show ?thesis by blast
qed

section \<open>Timers\<close>

lemma timers_run_timers:
  "timers (run_timers now st) = filter (\<lambda>(due, k). now < due) (timers st)"
  by (simp add: run_timers_def)

lemma processedTabs_run_timers:
  "key \<in> processedTabs (run_timers now st) \<longleftrightarrow>
     key \<in> processedTabs st \<and> filter (\<lambda>(due, k). k = key \<and> due \<le> now) (timers st) = []"
  by (auto simp: run_timers_def filter_empty_conv image_iff)

lemma processedTabs_run_timers_subset: "processedTabs (run_timers now st) \<subseteq> processedTabs st"
  by (auto simp: run_timers_def)

lemma run_timers_no_timers: "timers st = [] \<Longrightarrow> run_timers now st = st"
  by (simp add: run_timers_def)

section \<open>The example router\<close>

lemma ex_key: "lock_key 1 ''100.60.0.1'' = ''1-100.60.0.1''"
  by (simp add: lock_key_def string_of_int_def string_of_nat.simps) code_simp

lemma ex_new_URL_simps:
  "ex_new_URL (details_url ex_details) =
     Some \<lparr>url_protocol = ''http:'', url_hostname = ''100.60.0.1'', url_port = []\<rparr>"
  "ex_new_URL (details_url ex_details_8080) =
     Some \<lparr>url_protocol = ''http:'', url_hostname = ''100.60.0.1'', url_port = ''8080''\<rparr>"
  "ex_new_URL (details_url ex_details_https) =
     Some \<lparr>url_protocol = ''https:'', url_hostname = ''100.60.0.1'', url_port = ''8888''\<rparr>"
  "ex_new_URL (details_url ex_details_redirected) =
     Some \<lparr>url_protocol = ''https:'', url_hostname = ''100.60.0.1'', url_port = []\<rparr>"
  by (simp_all add: ex_new_URL_def ex_details_def ex_details_8080_def ex_details_https_def
      ex_details_redirected_def)

lemma ex_scan:
  "scan ex_net ''100.60.0.1'' =
     [\<lparr>url = ''https://100.60.0.1:443'', protocol = ''https:'', port = 443, status = OPEN\<rparr>,
      \<lparr>url = ''https://100.60.0.1:8080'', protocol = ''https:'', port = 8080,
         status = PROBABLY_OPEN_SSL\<rparr>,
      \<lparr>url = ''https://100.60.0.1:8888'', protocol = ''https:'', port = 8888,
         status = PROBABLY_OPEN_SSL\<rparr>,
      \<lparr>url = ''http://100.60.0.1:8080'', protocol = ''http:'', port = 8080, status = CLOSED\<rparr>,
      \<lparr>url = ''http://100.60.0.1:8888'', protocol = ''http:'', port = 8888, status = CLOSED\<rparr>]"
  by (simp add: scan_def checks_def checkPort_def Let_def string_of_nat_ports ex_net_def
      fetch_responds fetch_fails)

lemma ex_rank:
  "rank (scan ex_net ''100.60.0.1'') =
     [\<lparr>url = ''https://100.60.0.1:443'', protocol = ''https:'', port = 443, status = OPEN\<rparr>,
      \<lparr>url = ''https://100.60.0.1:8080'', protocol = ''https:'', port = 8080,
         status = PROBABLY_OPEN_SSL\<rparr>,
      \<lparr>url = ''https://100.60.0.1:8888'', protocol = ''https:'', port = 8888,
         status = PROBABLY_OPEN_SSL\<rparr>]"
  unfolding ex_scan
  by (simp add: rank_def js_sort_def active_def by_weight_def getWeight_def portPriority_def)

lemma ex_scan_time: "scan_time ex_net ''100.60.0.1'' = 10"
  unfolding scan_time_def ex_scan
  by (simp add: ex_net_def settle_time_def SCAN_TIMEOUT_def)

lemma ex_scan_8080:
  "scan ex_net_8080 ''100.60.0.1'' =
     [\<lparr>url = ''https://100.60.0.1:443'', protocol = ''https:'', port = 443, status = CLOSED\<rparr>,
      \<lparr>url = ''https://100.60.0.1:8080'', protocol = ''https:'', port = 8080, status = CLOSED\<rparr>,
      \<lparr>url = ''https://100.60.0.1:8888'', protocol = ''https:'', port = 8888, status = CLOSED\<rparr>,
      \<lparr>url = ''http://100.60.0.1:8080'', protocol = ''http:'', port = 8080, status = OPEN\<rparr>,
      \<lparr>url = ''http://100.60.0.1:8888'', protocol = ''http:'', port = 8888, status = CLOSED\<rparr>]"
  by (simp add: scan_def checks_def checkPort_def Let_def string_of_nat_ports ex_net_8080_def
      fetch_def SCAN_TIMEOUT_def)

lemma ex_rank_8080:
  "rank (scan ex_net_8080 ''100.60.0.1'') =
     [\<lparr>url = ''http://100.60.0.1:8080'', protocol = ''http:'', port = 8080, status = OPEN\<rparr>]"
  unfolding ex_scan_8080
  by (simp add: rank_def js_sort_def active_def)

text \<open>A run for the example navigation that finds the key unlocked redirects to port 443.\<close>

lemma ex_run_unlocked:
  assumes "''1-100.60.0.1'' \<notin> processedTabs (run_timers now st)"
  shows "onBeforeNavigate ex_new_URL ex_net now ex_details st =
     \<lparr>probes = map url (scan ex_net ''100.60.0.1''),
      command = Some (1, ''https://100.60.0.1:443''),
      state = (run_timers (now + 10) (run_timers now st))
        \<lparr>processedTabs := insert ''1-100.60.0.1''
           (processedTabs (run_timers (now + 10) (run_timers now st)))\<rparr>\<rparr>"
proof -
  let ?u = "\<lparr>url_protocol = ''http:'', url_hostname = ''100.60.0.1'', url_port = []\<rparr>"
  have "onBeforeNavigate ex_new_URL ex_net now ex_details st =
     (case rank (scan ex_net (url_hostname ?u)) of
        [] \<Rightarrow> \<lparr>probes = map url (scan ex_net (url_hostname ?u)), command = None,
               state = run_timers (now + scan_time ex_net (url_hostname ?u)) (run_timers now st)\<rparr>
      | best # rest \<Rightarrow>
          if prefix (url best) (details_url ex_details)
          then \<lparr>probes = map url (scan ex_net (url_hostname ?u)), command = None,
                state = run_timers (now + scan_time ex_net (url_hostname ?u)) (run_timers now st)\<rparr>
          else \<lparr>probes = map url (scan ex_net (url_hostname ?u)),
                command = Some (tabId ex_details, url best),
                state = (run_timers (now + scan_time ex_net (url_hostname ?u)) (run_timers now st))
                  \<lparr>processedTabs := insert (lock_key (tabId ex_details) (url_hostname ?u))
                     (processedTabs (run_timers (now + scan_time ex_net (url_hostname ?u))
                        (run_timers now st)))\<rparr>\<rparr>)"
    using assms
    by (intro nav_scans) (simp_all add: ex_new_URL_simps isTargetIp_examples ex_key, simp_all add: ex_details_def ex_key)
  also have "\<dots> = \<lparr>probes = map url (scan ex_net ''100.60.0.1''),
      command = Some (1, ''https://100.60.0.1:443''),
      state = (run_timers (now + 10) (run_timers now st))
        \<lparr>processedTabs := insert ''1-100.60.0.1''
           (processedTabs (run_timers (now + 10) (run_timers now st)))\<rparr>\<rparr>"
    by (simp add: ex_rank ex_scan_time ex_details_def ex_key)
  finally show ?thesis .
qed

text \<open>A run for the example navigation that finds the key locked schedules its removal.\<close>

lemma ex_run_locked:
  assumes "''1-100.60.0.1'' \<in> processedTabs (run_timers now st)"
  shows "onBeforeNavigate ex_new_URL ex_net now ex_details st =
     idle ((run_timers now st)\<lparr>timers := timers (run_timers now st) @
        [(now + 5000, ''1-100.60.0.1'')]\<rparr>)"
proof -
  let ?u = "\<lparr>url_protocol = ''http:'', url_hostname = ''100.60.0.1'', url_port = []\<rparr>"
  have "onBeforeNavigate ex_new_URL ex_net now ex_details st =
     idle ((run_timers now st)\<lparr>timers := timers (run_timers now st) @
        [(now + 5000, lock_key (tabId ex_details) (url_hostname ?u))]\<rparr>)"
    using assms
    by (intro nav_locked) (simp_all add: ex_new_URL_simps isTargetIp_examples ex_key, simp_all add: ex_details_def ex_key)
  then show ?thesis
    by (simp add: ex_details_def ex_key)
qed

lemma trace_1: "trace_1 = \<lparr>processedTabs = {''1-100.60.0.1''}, timers = []\<rparr>"
  unfolding trace_1_def
  by (subst ex_run_unlocked) (simp_all add: init_def run_timers_def)

lemma trace_2:
  "trace_2 = \<lparr>processedTabs = {''1-100.60.0.1''}, timers = [(7000, ''1-100.60.0.1'')]\<rparr>"
  unfolding trace_2_def trace_1
  by (subst ex_run_locked) (simp_all add: run_timers_def idle_def)

lemma trace_3:
  "trace_3 = \<lparr>processedTabs = {''1-100.60.0.1''},
     timers = [(7000, ''1-100.60.0.1''), (11000, ''1-100.60.0.1'')]\<rparr>"
  unfolding trace_3_def trace_2
  by (subst ex_run_locked) (simp_all add: run_timers_def idle_def)

lemma trace_4:
  "trace_4 = \<lparr>processedTabs = {''1-100.60.0.1''}, timers = [(11000, ''1-100.60.0.1'')]\<rparr>"
  unfolding trace_4_def trace_3
  by (subst ex_run_unlocked) (simp_all add: run_timers_def)

section \<open>The gates of the listener\<close>

lemma nav_key_locked:
  assumes "new_URL (details_url d) = Some u"
    and "lock_key (tabId d) (url_hostname u) \<in> processedTabs (run_timers now st)"
  shows "command (onBeforeNavigate new_URL net now d st) = None"
    and "probes (onBeforeNavigate new_URL net now d st) = []"
  using assms by (simp_all add: onBeforeNavigate_def Let_def idle_def)

lemma nav_redirects:
  assumes "frameId d = 0" "new_URL (details_url d) = Some u" "isTargetIp (url_hostname u)"
    and "lock_key (tabId d) (url_hostname u) \<notin> processedTabs (run_timers now st)"
    and "url_protocol u = ''http:''"
    and "rank (scan net (url_hostname u)) = best # rest"
    and "\<not> prefix (url best) (details_url d)"
  shows "onBeforeNavigate new_URL net now d st =
     \<lparr>probes = map url (scan net (url_hostname u)),
      command = Some (tabId d, url best),
      state = (run_timers (now + scan_time net (url_hostname u)) (run_timers now st))
        \<lparr>processedTabs := insert (lock_key (tabId d) (url_hostname u))
           (processedTabs (run_timers (now + scan_time net (url_hostname u))
              (run_timers now st)))\<rparr>\<rparr>"
  using assms(6,7)
  by (simp add: nav_scans [where new_URL = new_URL and u = u, OF assms(1-5)])

lemma nav_at_best:
  assumes "frameId d = 0" "new_URL (details_url d) = Some u" "isTargetIp (url_hostname u)"
    and "lock_key (tabId d) (url_hostname u) \<notin> processedTabs (run_timers now st)"
    and "url_protocol u = ''http:''"
    and "rank (scan net (url_hostname u)) = best # rest"
    and "prefix (url best) (details_url d)"
  shows "onBeforeNavigate new_URL net now d st =
     \<lparr>probes = map url (scan net (url_hostname u)), command = None,
      state = run_timers (now + scan_time net (url_hostname u)) (run_timers now st)\<rparr>"
  using assms(6,7)
  by (simp add: nav_scans [where new_URL = new_URL and u = u, OF assms(1-5)])

lemma nav_probes:
  assumes "frameId d = 0" "new_URL (details_url d) = Some u" "isTargetIp (url_hostname u)"
    and "lock_key (tabId d) (url_hostname u) \<notin> processedTabs (run_timers now st)"
    and "url_protocol u = ''http:''"
  shows "probes (onBeforeNavigate new_URL net now d st) = map url (scan net (url_hostname u))"
  unfolding nav_scans [where new_URL = new_URL and u = u, OF assms]
  by (cases "rank (scan net (url_hostname u))") simp_all

lemma urls_scan:
  "map url (scan net hostname) =
     map (\<lambda>(p, proto). proto @ ''//'' @ hostname @ '':'' @ string_of_nat p) checks"
  by (simp add: scan_def checks_def fields_checkPort)

text \<open>
  C7. A navigation whose URL is not plain HTTP on the default port and whose protocol is
  not \<open>http:\<close> at all ends the listener with no probe and no redirect. A top-frame
  navigation to a target address with protocol \<open>http:\<close> on a port that is not the
  default passes this gate: with the key unlocked, all five probes are launched.
\<close>

theorem entry_gate:
  "(new_URL (details_url d) = Some u \<and>
    \<not> (url_protocol u = ''http:'' \<and> (url_port u = [] \<or> url_port u = ''80'')) \<and>
    url_protocol u \<noteq> ''http:'' \<longrightarrow>
      probes (onBeforeNavigate new_URL net now d st) = [] \<and>
      command (onBeforeNavigate new_URL net now d st) = None)
   \<and> (frameId d = 0 \<and> new_URL (details_url d) = Some u \<and> isTargetIp (url_hostname u) \<and>
       lock_key (tabId d) (url_hostname u) \<notin> processedTabs (run_timers now st) \<and>
       url_protocol u = ''http:'' \<and> url_port u \<noteq> [] \<and> url_port u \<noteq> ''80'' \<longrightarrow>
         probes (onBeforeNavigate new_URL net now d st) =
           map (\<lambda>(p, proto). proto @ ''//'' @ url_hostname u @ '':'' @ string_of_nat p) checks \<and>
         length (probes (onBeforeNavigate new_URL net now d st)) = 5)"
proof (intro conjI impI; elim conjE)
  assume "new_URL (details_url d) = Some u" "url_protocol u \<noteq> ''http:''"
  then show "probes (onBeforeNavigate new_URL net now d st) = []"
    and "command (onBeforeNavigate new_URL net now d st) = None"
    by (rule nav_not_http)+
next
  assume a: "frameId d = 0" "new_URL (details_url d) = Some u" "isTargetIp (url_hostname u)"
    "lock_key (tabId d) (url_hostname u) \<notin> processedTabs (run_timers now st)"
    "url_protocol u = ''http:''"
  have p: "probes (onBeforeNavigate new_URL net now d st) = map url (scan net (url_hostname u))"
    using a by (rule nav_probes)
  show "probes (onBeforeNavigate new_URL net now d st) =
      map (\<lambda>(p, proto). proto @ ''//'' @ url_hostname u @ '':'' @ string_of_nat p) checks"
    unfolding p by (rule urls_scan)
  show "length (probes (onBeforeNavigate new_URL net now d st)) = 5"
    unfolding p by (simp add: scan_def checks_def)
qed

theorem entry_gate_witness:
  "probes (onBeforeNavigate ex_new_URL ex_net 0 ex_details_https init) = []
   \<and> command (onBeforeNavigate ex_new_URL ex_net 0 ex_details_https init) = None
   \<and> probes (onBeforeNavigate ex_new_URL ex_net_8080 0 ex_details_8080 init) =
       [''https://100.60.0.1:443'', ''https://100.60.0.1:8080'', ''https://100.60.0.1:8888'',
        ''http://100.60.0.1:8080'', ''http://100.60.0.1:8888'']"
proof -
  have k: "lock_key (tabId ex_details_8080) ''100.60.0.1'' \<notin> processedTabs (run_timers 0 init)"
    by (simp add: run_timers_def init_def)
  have f: "frameId ex_details_8080 = 0"
    by (simp add: ex_details_8080_def)
  show ?thesis
    using entry_gate [of ex_new_URL ex_details_https
        "\<lparr>url_protocol = ''https:'', url_hostname = ''100.60.0.1'', url_port = ''8888''\<rparr>"
        ex_net 0 init]
      entry_gate [of ex_new_URL ex_details_8080
        "\<lparr>url_protocol = ''http:'', url_hostname = ''100.60.0.1'', url_port = ''8080''\<rparr>"
        ex_net_8080 0 init]
      k f
    by (simp add: ex_new_URL_simps isTargetIp_examples checks_def string_of_nat_ports)
qed

text \<open>
  C9. When the URL of the navigation starts with the URL of the best candidate, a run
  that finds the key unlocked issues no redirect and adds no key: the state it leaves is
  the one the due timers alone produce, so the set of keys has not grown and, with no
  timer pending, the state is unchanged.
\<close>

theorem already_at_best_target:
  "frameId d = 0 \<and> new_URL (details_url d) = Some u \<and> isTargetIp (url_hostname u) \<and>
   lock_key (tabId d) (url_hostname u) \<notin> processedTabs (run_timers now st) \<and>
   url_protocol u = ''http:'' \<and> rank (scan net (url_hostname u)) = best # rest \<and>
   prefix (url best) (details_url d) \<longrightarrow>
     command (onBeforeNavigate new_URL net now d st) = None \<and>
     state (onBeforeNavigate new_URL net now d st) =
       run_timers (now + scan_time net (url_hostname u)) (run_timers now st) \<and>
     lock_key (tabId d) (url_hostname u) \<notin>
       processedTabs (state (onBeforeNavigate new_URL net now d st)) \<and>
     processedTabs (state (onBeforeNavigate new_URL net now d st)) \<subseteq> processedTabs st \<and>
     (timers st = [] \<longrightarrow> state (onBeforeNavigate new_URL net now d st) = st)"
proof (intro impI, elim conjE)
  assume a: "frameId d = 0" "new_URL (details_url d) = Some u" "isTargetIp (url_hostname u)"
    "lock_key (tabId d) (url_hostname u) \<notin> processedTabs (run_timers now st)"
    "url_protocol u = ''http:''" "rank (scan net (url_hostname u)) = best # rest"
    "prefix (url best) (details_url d)"
  note eq = nav_at_best [where new_URL = new_URL and u = u, OF a]
  have c: "command (onBeforeNavigate new_URL net now d st) = None"
    unfolding eq by simp
  have s: "state (onBeforeNavigate new_URL net now d st) =
       run_timers (now + scan_time net (url_hostname u)) (run_timers now st)"
    unfolding eq by simp
  have k: "lock_key (tabId d) (url_hostname u) \<notin>
       processedTabs (state (onBeforeNavigate new_URL net now d st))"
    unfolding s using a(4) processedTabs_run_timers_subset by blast
  have g: "processedTabs (state (onBeforeNavigate new_URL net now d st)) \<subseteq> processedTabs st"
    unfolding s using processedTabs_run_timers_subset by blast
  have n: "timers st = [] \<longrightarrow> state (onBeforeNavigate new_URL net now d st) = st"
    unfolding s by (simp add: run_timers_no_timers)
  from c s k g n show "command (onBeforeNavigate new_URL net now d st) = None \<and>
     state (onBeforeNavigate new_URL net now d st) =
       run_timers (now + scan_time net (url_hostname u)) (run_timers now st) \<and>
     lock_key (tabId d) (url_hostname u) \<notin>
       processedTabs (state (onBeforeNavigate new_URL net now d st)) \<and>
     processedTabs (state (onBeforeNavigate new_URL net now d st)) \<subseteq> processedTabs st \<and>
     (timers st = [] \<longrightarrow> state (onBeforeNavigate new_URL net now d st) = st)"
    by (intro conjI)
qed

theorem already_at_best_target_witness:
  "rank (scan ex_net_8080 ''100.60.0.1'') =
     [\<lparr>url = ''http://100.60.0.1:8080'', protocol = ''http:'', port = 8080, status = OPEN\<rparr>]
   \<and> prefix ''http://100.60.0.1:8080'' (details_url ex_details_8080)
   \<and> command (onBeforeNavigate ex_new_URL ex_net_8080 0 ex_details_8080 init) = None
   \<and> state (onBeforeNavigate ex_new_URL ex_net_8080 0 ex_details_8080 init) = init"
proof -
  have k: "lock_key (tabId ex_details_8080) ''100.60.0.1'' \<notin> processedTabs (run_timers 0 init)"
    by (simp add: run_timers_def init_def)
  have f: "frameId ex_details_8080 = 0"
    by (simp add: ex_details_8080_def)
  have p: "prefix ''http://100.60.0.1:8080'' (details_url ex_details_8080)"
    by (simp add: ex_details_8080_def)
  have t: "timers init = []"
    by (simp add: init_def)
  show ?thesis
    using already_at_best_target [of ex_details_8080 ex_new_URL
        "\<lparr>url_protocol = ''http:'', url_hostname = ''100.60.0.1'', url_port = ''8080''\<rparr>"
        0 init ex_net_8080
        "\<lparr>url = ''http://100.60.0.1:8080'', protocol = ''http:'', port = 8080, status = OPEN\<rparr>"
        "[]"]
      k f p t
    by (simp add: ex_new_URL_simps isTargetIp_examples ex_rank_8080 run_timers_no_timers)
qed

section \<open>The lock across runs\<close>


lemma onBeforeNavigate_phases:
  "onBeforeNavigate new_URL net now d st0 =
     (case listener_enter new_URL now d st0 of
        Returned r \<Rightarrow> r
      | Awaiting hostname lockKey st \<Rightarrow> listener_resume net now d hostname lockKey st)"
  by (simp add: onBeforeNavigate_def listener_enter_def listener_resume_def Let_def
      split: option.splits)

lemma ex_enter:
  assumes "''1-100.60.0.1'' \<notin> processedTabs (run_timers now st)"
  shows "listener_enter ex_new_URL now ex_details st =
     Awaiting ''100.60.0.1'' ''1-100.60.0.1'' (run_timers now st)"
proof -
  have "frameId ex_details = 0" "tabId ex_details = 1"
    by (simp_all add: ex_details_def)
  with assms show ?thesis
    by (simp add: listener_enter_def Let_def ex_new_URL_simps isTargetIp_examples ex_key)
qed

lemma ex_resume:
  "listener_resume ex_net now ex_details ''100.60.0.1'' ''1-100.60.0.1'' st =
     \<lparr>probes = map url (scan ex_net ''100.60.0.1''),
      command = Some (1, ''https://100.60.0.1:443''),
      state = (run_timers (now + 10) st)
        \<lparr>processedTabs := insert ''1-100.60.0.1'' (processedTabs (run_timers (now + 10) st))\<rparr>\<rparr>"
proof -
  have s: "js_sort by_weight (filter active (scan ex_net ''100.60.0.1'')) =
     [\<lparr>url = ''https://100.60.0.1:443'', protocol = ''https:'', port = 443, status = OPEN\<rparr>,
      \<lparr>url = ''https://100.60.0.1:8080'', protocol = ''https:'', port = 8080,
         status = PROBABLY_OPEN_SSL\<rparr>,
      \<lparr>url = ''https://100.60.0.1:8888'', protocol = ''https:'', port = 8888,
         status = PROBABLY_OPEN_SSL\<rparr>]"
    using ex_rank by (simp only: rank_def)
  have n: "filter active (scan ex_net ''100.60.0.1'') \<noteq> []"
    using ex_rank rank_Nil_iff [of "scan ex_net ''100.60.0.1''"] by simp
  have "tabId ex_details = 1" "details_url ex_details = ''http://100.60.0.1/''"
    by (simp_all add: ex_details_def)
  with s n show ?thesis
    by (simp add: listener_resume_def Let_def ex_scan_time)
qed


lemma ex_run_0: "command (onBeforeNavigate ex_new_URL ex_net 0 ex_details init) =
    Some (1, ''https://100.60.0.1:443'')"
  by (subst ex_run_unlocked) (simp_all add: init_def run_timers_def)




text \<open>
  C6 (as amended). If a run for a key redirects, the next run for the same tab and host
  is entered once that redirect has been issued (the key is added only after the scan),
  and no removal of the key falls due after the first run has finished and by the time
  the next one starts, then the next run issues no redirect and launches no probe,
  however late it comes; in particular when it comes within 5000 ms.
\<close>

theorem redirect_then_suppress:
  "new_URL (details_url d) = Some u \<and> key = lock_key (tabId d) (url_hostname u) \<and>
   command (onBeforeNavigate new_URL net t1 d st) = Some c \<and>
   t1 + scan_time net (url_hostname u) \<le> t2 \<and>
   filter (\<lambda>(due, k). k = key \<and> t1 + scan_time net (url_hostname u) < due \<and> due \<le> t2)
     (timers st) = [] \<and>
   new_URL (details_url d2) = Some u2 \<and> tabId d2 = tabId d \<and> url_hostname u2 = url_hostname u \<longrightarrow>
     command (onBeforeNavigate new_URL net2 t2 d2
        (state (onBeforeNavigate new_URL net t1 d st))) = None \<and>
     probes (onBeforeNavigate new_URL net2 t2 d2
        (state (onBeforeNavigate new_URL net t1 d st))) = []"
proof (intro impI, elim conjE)
  assume u: "new_URL (details_url d) = Some u"
    and key: "key = lock_key (tabId d) (url_hostname u)"
    and c: "command (onBeforeNavigate new_URL net t1 d st) = Some c"
    and le: "t1 + scan_time net (url_hostname u) \<le> t2"
    and none: "filter (\<lambda>(due, k). k = key \<and> t1 + scan_time net (url_hostname u) < due \<and> due \<le> t2)
      (timers st) = []"
    and u2: "new_URL (details_url d2) = Some u2" and tab: "tabId d2 = tabId d"
    and host: "url_hostname u2 = url_hostname u"
  from nav_command [OF c u]
  obtain best rest where f: "frameId d = 0" and t: "isTargetIp (url_hostname u)"
    and h: "url_protocol u = ''http:''"
    and k: "lock_key (tabId d) (url_hostname u) \<notin> processedTabs (run_timers t1 st)"
    and b: "rank (scan net (url_hostname u)) = best # rest"
    and p: "\<not> prefix (url best) (details_url d)"
    by blast
  note eq1 = nav_redirects [where new_URL = new_URL and u = u, OF f u t k h b p]
  have "key \<in> processedTabs (run_timers t2 (state (onBeforeNavigate new_URL net t1 d st)))"
    unfolding eq1 processedTabs_run_timers
    using none le by (auto simp: key timers_run_timers filter_empty_conv)
  then have k2: "lock_key (tabId d2) (url_hostname u2) \<in>
      processedTabs (run_timers t2 (state (onBeforeNavigate new_URL net t1 d st)))"
    by (simp add: key tab host)
  show "command (onBeforeNavigate new_URL net2 t2 d2
        (state (onBeforeNavigate new_URL net t1 d st))) = None \<and>
     probes (onBeforeNavigate new_URL net2 t2 d2
        (state (onBeforeNavigate new_URL net t1 d st))) = []"
    using nav_key_locked [where new_URL = new_URL and u = u2, OF u2 k2] by simp
qed

theorem redirect_then_suppress_witness:
  "command (onBeforeNavigate ex_new_URL ex_net 0 ex_details init) =
     Some (1, ''https://100.60.0.1:443'')
   \<and> 0 + scan_time ex_net ''100.60.0.1'' \<le> 2000
   \<and> timers init = []
   \<and> command (onBeforeNavigate ex_new_URL ex_net 2000 ex_details trace_1) = None
   \<and> probes (onBeforeNavigate ex_new_URL ex_net 2000 ex_details trace_1) = []"
proof -
  have t: "timers init = []"
    by (simp add: init_def)
  have c: "tabId ex_details = 1"
    by (simp add: ex_details_def)
  show ?thesis
    using redirect_then_suppress [of ex_new_URL ex_details
        "\<lparr>url_protocol = ''http:'', url_hostname = ''100.60.0.1'', url_port = []\<rparr>"
        "''1-100.60.0.1''" ex_net 0 init "(1, ''https://100.60.0.1:443'')" 2000
        ex_details "\<lparr>url_protocol = ''http:'', url_hostname = ''100.60.0.1'', url_port = []\<rparr>"
        ex_net]
      ex_run_0 t c
    by (simp add: ex_new_URL_simps ex_key ex_scan_time trace_1_def [symmetric])
qed

text \<open>
  Removals scheduled by earlier suppressed runs stay pending. In the history of the
  example the removal scheduled at 6000 ms falls due at 11000 ms, after the redirect of
  the run entered at 8000 ms, so the run entered at 12000 ms redirects once more.
\<close>

theorem stale_timer_releases_fresh_lock:
  "trace_3 = \<lparr>processedTabs = {''1-100.60.0.1''},
     timers = [(7000, ''1-100.60.0.1''), (11000, ''1-100.60.0.1'')]\<rparr>
   \<and> command (onBeforeNavigate ex_new_URL ex_net 8000 ex_details trace_3) =
       Some (1, ''https://100.60.0.1:443'')
   \<and> trace_4 = state (onBeforeNavigate ex_new_URL ex_net 8000 ex_details trace_3)
   \<and> 8000 + scan_time ex_net ''100.60.0.1'' \<le> (12000 :: nat)
   \<and> (12000 :: nat) < 8000 + scan_time ex_net ''100.60.0.1'' + 5000
   \<and> command (onBeforeNavigate ex_new_URL ex_net 12000 ex_details trace_4) =
       Some (1, ''https://100.60.0.1:443'')"
proof -
  have a: "command (onBeforeNavigate ex_new_URL ex_net 8000 ex_details trace_3) =
       Some (1, ''https://100.60.0.1:443'')"
    by (subst ex_run_unlocked) (simp_all add: trace_3 run_timers_def)
  have b: "command (onBeforeNavigate ex_new_URL ex_net 12000 ex_details trace_4) =
       Some (1, ''https://100.60.0.1:443'')"
    by (subst ex_run_unlocked) (simp_all add: trace_4 run_timers_def)
  show ?thesis
    using a b trace_3 by (simp add: ex_scan_time trace_4_def [symmetric])
qed

text \<open>
  A run that enters while another run for the same key awaits its scan is not
  suppressed either: entered at 0 and 5 ms from the initial state, both runs pass the
  test of the lock, and both redirect when they resume, at 10 and 15 ms.
\<close>

theorem overlapping_runs_both_redirect:
  "listener_enter ex_new_URL 0 ex_details init = Awaiting ''100.60.0.1'' ''1-100.60.0.1'' init
   \<and> listener_enter ex_new_URL 5 ex_details init = Awaiting ''100.60.0.1'' ''1-100.60.0.1'' init
   \<and> command (listener_resume ex_net 0 ex_details ''100.60.0.1'' ''1-100.60.0.1'' init) =
       Some (1, ''https://100.60.0.1:443'')
   \<and> state (listener_resume ex_net 0 ex_details ''100.60.0.1'' ''1-100.60.0.1'' init) = trace_1
   \<and> command (listener_resume ex_net 5 ex_details ''100.60.0.1'' ''1-100.60.0.1'' trace_1) =
       Some (1, ''https://100.60.0.1:443'')"
proof -
  have i: "run_timers t init = init" for t
    by (simp add: run_timers_no_timers init_def)
  have e: "listener_enter ex_new_URL t ex_details init =
      Awaiting ''100.60.0.1'' ''1-100.60.0.1'' init" for t
    using ex_enter [of t init] by (simp add: i) (simp add: init_def)
  show ?thesis
    by (simp add: e ex_resume trace_1 i) (simp add: init_def)
qed

end
